theory Spec2Isabelle
  imports Complex_Main "HOL-Library.Multiset" "HOL-Library.Sublist"
begin

section \<open>Values of the language\<close>

text \<open>
  The request body and the structured output of the completion service are JSON values.
  \<open>JUndefined\<close> is what reading an absent property gives. An object is the association list
  of its properties, keys distinct as \<open>JSON.parse\<close> leaves them. Numbers are modelled by
  integers: the handlers only test a number for being zero or positive. Strings are
  lists of \<open>char\<close>.
\<close>

datatype json =
    JUndefined
  | JNull
  | JBool bool
  | JNum int
  | JStr string
  | JArr "json list"
  | JObj "(string \<times> json) list"

text \<open>\<open>truthy v\<close> is the condition \<open>if (v)\<close>; \<open>!v\<close> is its negation.\<close>

fun truthy :: "json \<Rightarrow> bool" where
  "truthy JUndefined = False"
| "truthy JNull = False"
| "truthy (JBool b) = b"
| "truthy (JNum n) = (n \<noteq> 0)"
| "truthy (JStr s) = (s \<noteq> [])"
| "truthy (JArr xs) = True"
| "truthy (JObj kvs) = True"

text \<open>
  \<open>field k v\<close> is the member access \<open>v.k\<close> on a value other than \<open>null\<close> and
  \<open>undefined\<close>, for the keys the handlers read (\<open>message\<close>, \<open>sessionId\<close>, \<open>userId\<close>,
  \<open>name\<close>, \<open>facts\<close>): only an object can carry them.
\<close>

fun field :: "string \<Rightarrow> json \<Rightarrow> json" where
  "field k (JObj kvs) = (case map_of kvs k of Some v \<Rightarrow> v | None \<Rightarrow> JUndefined)"
| "field k v = JUndefined"

text \<open>\<open>String.prototype.trim\<close>, on the white space a \<open>char\<close> can hold.\<close>

definition is_space :: "char \<Rightarrow> bool" where
  "is_space c = (c \<in> set [CHR 0x09, CHR 0x0A, CHR 0x0B, CHR 0x0C, CHR 0x0D, CHR 0x20, CHR 0xA0])"

definition trim :: "string \<Rightarrow> string" where
  "trim s = rev (dropWhile is_space (rev (dropWhile is_space s)))"

text \<open>\<open>xs.join(sep)\<close> on an array of strings.\<close>

fun join :: "string \<Rightarrow> string list \<Rightarrow> string" where
  "join sep [] = []"
| "join sep [x] = x"
| "join sep (x # y # ys) = x @ sep @ join sep (y # ys)"

text \<open>
  The test \<open>!v || typeof v !== 'string' || v.trim() === ''\<close> of the chat route, returning
  the string when the test is false.
\<close>

fun required_string :: "json \<Rightarrow> string option" where
  "required_string (JStr s) = (if s = [] \<or> trim s = [] then None else Some s)"
| "required_string v = None"

section \<open>The relational store\<close>

text \<open>
  The three tables of the schema. \<open>created_at\<close> is the storage's clock reading at the
  insert. The surrogate keys of messages and memories are never read or written by the
  code and are left out.
\<close>

datatype sender = Sender_user | Sender_ai

record conversation =
  conv_id :: string
  conv_user_id :: string
  conv_name :: "string option"
  conv_created_at :: nat

record message =
  msg_conversation_id :: string
  msg_sender :: sender
  msg_content :: string
  msg_created_at :: nat

record memory =
  mem_user_id :: string
  mem_content :: string
  mem_created_at :: nat

record db =
  conversations_table :: "conversation list"
  messages_table :: "message list"
  memories_table :: "memory list"

text \<open>The places where the code calls the store, and where it calls the completion service.\<close>

datatype db_op =
    Create_named_conversation
  | Create_conversation
  | Verify_ownership
  | Save_user_message
  | Read_history
  | Read_memories
  | Update_title
  | Save_ai_message
  | Store_facts
  | History_route_read
  | Sessions_route_read

datatype call_site = Generate_reply | Generate_title | Extract_facts

datatype role = Role_user | Role_assistant | Role_system

type_synonym Message = "role \<times> string"

record groq_request =
  req_messages :: "Message list"
  req_model :: string
  req_temperature :: rat
  req_max_tokens :: "nat option"
  req_response_format :: "string option"

text \<open>
  The outcome of \<open>groq.chat.completions.create\<close> followed by
  \<open>choices[0]?.message?.content\<close>: the call or the access raises, or the content is read
  (\<open>None\<close> when it is \<open>undefined\<close> or \<open>null\<close>).
\<close>

datatype completion = Raises | Returned "string option"

datatype storage_result =
    Failed
  | Done
  | Row_id string
  | Message_rows "message list"
  | Memory_rows "memory list"
  | Conversation_rows "conversation list"

text \<open>
  What a run does to the outside, in order: every call to the store with its result,
  every completion request with its outcome, every \<open>console.error\<close> with its fixed
  message. \<open>console.log\<close> output is not recorded.
\<close>

datatype event =
    Storage db_op storage_result
  | Groq call_site groq_request completion
  | Console_error string

text \<open>
  Everything a run takes from outside the program: the process environment, whether the
  store fails at a call, the identifier and clock readings the store generates, how the
  store renders a value that is not a string in a text column (\<open>None\<close>: it rejects the
  row), the completion service, and three builtins of the language: \<open>JSON.parse\<close>
  (\<open>None\<close>: it raises), the comparison \<open>v > 0\<close> on a string or an array, which
  converts it to a number, and the conversion of a value that is not a string to a
  string, as a template literal does it.
\<close>

record env =
  NEXT_PUBLIC_SUPABASE_URL :: "string option"
  NEXT_PUBLIC_SUPABASE_PUBLISHABLE_KEY :: "string option"
  GROQ_API_KEY :: "string option"
  storage_fails :: "db_op \<Rightarrow> bool"
  generated_id :: string
  now :: "db_op \<Rightarrow> nat"
  coerce_text :: "json \<Rightarrow> string option"
  groq :: "groq_request \<Rightarrow> completion"
  JSON_parse :: "string \<Rightarrow> json option"
  greater_than_zero :: "json \<Rightarrow> bool"
  to_string :: "json \<Rightarrow> string"

record world =
  store :: db
  trace :: "event list"

definition emit :: "event \<Rightarrow> world \<Rightarrow> world" where
  "emit e w = w\<lparr>trace := trace w @ [e]\<rparr>"

text \<open>\<open>!v\<close> on an environment variable: unset or empty.\<close>

definition unset :: "string option \<Rightarrow> bool" where
  "unset v = (v = None \<or> v = Some [])"

definition text_value :: "env \<Rightarrow> json \<Rightarrow> string option" where
  "text_value env v = (case v of JStr s \<Rightarrow> Some s | _ \<Rightarrow> coerce_text env v)"

text \<open>
  \<open>.eq(column, value)\<close> writes the value into the query as the template literal
  \<open>eq.${value}\<close> does: a string as it is, any other value as the string the language
  makes of it.
\<close>

definition filter_value :: "env \<Rightarrow> json \<Rightarrow> string" where
  "filter_value env v = (case v of JStr s \<Rightarrow> s | _ \<Rightarrow> to_string env v)"

subsection \<open>The queries the code issues\<close>

text \<open>
  A query returns \<open>{data, error}\<close> and never raises. A failed call leaves the tables as
  they were. \<open>.single()\<close> is an error unless exactly one row matches. Rows with equal
  \<open>created_at\<close> come back in table order.
\<close>

definition insert_conversation ::
  "env \<Rightarrow> db_op \<Rightarrow> string \<Rightarrow> json \<Rightarrow> world \<Rightarrow> string option \<times> world" where
  "insert_conversation env op uid name w =
     (case (if storage_fails env op then None else text_value env name) of
        None \<Rightarrow> (None, emit (Storage op Failed) w)
      | Some n \<Rightarrow>
          let row = \<lparr>conv_id = generated_id env, conv_user_id = uid,
                     conv_name = Some n, conv_created_at = now env op\<rparr>
          in (Some (generated_id env),
              emit (Storage op (Row_id (generated_id env)))
                (w\<lparr>store := (store w)\<lparr>conversations_table := conversations_table (store w) @ [row]\<rparr>\<rparr>)))"

definition select_own_conversation ::
  "env \<Rightarrow> db_op \<Rightarrow> json \<Rightarrow> string \<Rightarrow> world \<Rightarrow> string option \<times> world" where
  "select_own_conversation env op sid uid w =
     (if storage_fails env op then (None, emit (Storage op Failed) w)
      else case filter (\<lambda>c. conv_id c = filter_value env sid \<and> conv_user_id c = uid)
                  (conversations_table (store w)) of
             [c] \<Rightarrow> (Some (conv_id c), emit (Storage op (Row_id (conv_id c))) w)
           | _ \<Rightarrow> (None, emit (Storage op Failed) w))"

definition insert_message ::
  "env \<Rightarrow> db_op \<Rightarrow> string \<Rightarrow> sender \<Rightarrow> string \<Rightarrow> world \<Rightarrow> bool \<times> world" where
  "insert_message env op cid s c w =
     (if storage_fails env op then (False, emit (Storage op Failed) w)
      else
        let row = \<lparr>msg_conversation_id = cid, msg_sender = s, msg_content = c,
                   msg_created_at = now env op\<rparr>
        in (True,
            emit (Storage op Done)
              (w\<lparr>store := (store w)\<lparr>messages_table := messages_table (store w) @ [row]\<rparr>\<rparr>)))"

definition select_messages ::
  "env \<Rightarrow> db_op \<Rightarrow> string \<Rightarrow> world \<Rightarrow> message list option \<times> world" where
  "select_messages env op cid w =
     (if storage_fails env op then (None, emit (Storage op Failed) w)
      else
        let rows = sort_key msg_created_at
                     (filter (\<lambda>m. msg_conversation_id m = cid) (messages_table (store w)))
        in (Some rows, emit (Storage op (Message_rows rows)) w))"

definition select_memories ::
  "env \<Rightarrow> db_op \<Rightarrow> string \<Rightarrow> world \<Rightarrow> memory list option \<times> world" where
  "select_memories env op uid w =
     (if storage_fails env op then (None, emit (Storage op Failed) w)
      else
        let rows = sort_key mem_created_at
                     (filter (\<lambda>m. mem_user_id m = uid) (memories_table (store w)))
        in (Some rows, emit (Storage op (Memory_rows rows)) w))"

definition select_conversations ::
  "env \<Rightarrow> db_op \<Rightarrow> string \<Rightarrow> world \<Rightarrow> conversation list option \<times> world" where
  "select_conversations env op uid w =
     (if storage_fails env op then (None, emit (Storage op Failed) w)
      else
        let rows = rev (sort_key conv_created_at
                     (filter (\<lambda>c. conv_user_id c = uid) (conversations_table (store w))))
        in (Some rows, emit (Storage op (Conversation_rows rows)) w))"

definition update_conversation_name ::
  "env \<Rightarrow> db_op \<Rightarrow> string \<Rightarrow> string \<Rightarrow> world \<Rightarrow> bool \<times> world" where
  "update_conversation_name env op cid title w =
     (if storage_fails env op then (False, emit (Storage op Failed) w)
      else (True,
            emit (Storage op Done)
              (w\<lparr>store := (store w)\<lparr>conversations_table :=
                 map (\<lambda>c. if conv_id c = cid then c\<lparr>conv_name := Some title\<rparr> else c)
                   (conversations_table (store w))\<rparr>\<rparr>)))"

text \<open>One statement inserts all the rows or none.\<close>

fun all_text :: "env \<Rightarrow> json list \<Rightarrow> string list option" where
  "all_text env [] = Some []"
| "all_text env (v # vs) =
     (case text_value env v of
        None \<Rightarrow> None
      | Some s \<Rightarrow> (case all_text env vs of None \<Rightarrow> None | Some ss \<Rightarrow> Some (s # ss)))"

definition insert_memories ::
  "env \<Rightarrow> db_op \<Rightarrow> string \<Rightarrow> json list \<Rightarrow> world \<Rightarrow> bool \<times> world" where
  "insert_memories env op uid facts w =
     (case (if storage_fails env op then None else all_text env facts) of
        None \<Rightarrow> (False, emit (Storage op Failed) w)
      | Some ss \<Rightarrow>
          let rows = map (\<lambda>s. \<lparr>mem_user_id = uid, mem_content = s,
                                mem_created_at = now env op\<rparr>) ss
          in (True,
              emit (Storage op Done)
                (w\<lparr>store := (store w)\<lparr>memories_table := memories_table (store w) @ rows\<rparr>\<rparr>)))"

section \<open>The completion service: \<open>lib/llm.ts\<close>\<close>

record ConversationEntry =
  entry_sender :: sender
  entry_content :: string

datatype error = Error string

fun toGroqMessage :: "ConversationEntry \<Rightarrow> Message" where
  "toGroqMessage entry =
     (if entry_sender entry = Sender_user then (Role_user, entry_content entry)
      else (Role_assistant, entry_content entry))"

definition memoryContext :: "string list \<Rightarrow> string" where
  \<open>memoryContext memories =
     (if length memories > 0
      then ''\<newline>Relevant memories/facts about this user:\<newline>'' @
           join ''\<newline>'' (map (\<lambda>m. ''- '' @ m) memories)
      else [])\<close>

definition systemPrompt :: "string list \<Rightarrow> string" where
  \<open>systemPrompt memories =
     ''You are a helpful support agent for a small e-commerce store called "Spur."\<newline>'' @
     ''  Answer clearly and concisely. Here's some basic knowledge about Spur:\<newline>'' @
     ''  - Shipping policy: We offer free standard shipping on all orders over $50. Expedited shipping is available for a flat rate of $10. We ship within the USA only.\<newline>'' @
     ''  - Return/refund policy: You can return any item within 30 days of purchase for a full refund, no questions asked. Items must be in their original condition.\<newline>'' @
     ''  - Support hours: Our support team is available Monday to Friday, 9 AM to 5 PM PST.\<newline>'' @
     ''  - Product catalog: We sell handmade artisan goods, custom jewelry, home decor, and **unique tech accessories** (like cat-shaped keyboards and warmers).\<newline>'' @
     ''  - Discounts: First-time customers get 10% off their first order with code WELCOME10.\<newline>'' @
     ''\<newline>'' @
     ''  '' @
     memoryContext memories @
     ''\<newline>'' @
     ''\<newline>'' @
     ''  **CRITICAL INSTRUCTION:**\<newline>'' @
     ''  If the "Relevant memories" above mention a past purchase or event (like a returned keyboard), **assume it is true**, even if it contradicts the standard catalog. Your goal is to be helpful and consistent with the user's history.\<newline>'' @
     ''  \<newline>'' @
     ''  Given the following conversation history and the new user message, provide a helpful and concise response.\<newline>'' @
     ''  ''\<close>

text \<open>
  \<open>generateAIResponse\<close> raises only when the API key is unset. Whatever the completion
  call does, it returns a string: the content, or one of two fixed apologies.
\<close>

definition generateAIResponse ::
  "env \<Rightarrow> ConversationEntry list \<Rightarrow> string \<Rightarrow> string list \<Rightarrow> world \<Rightarrow> (error + string) \<times> world" where
  "generateAIResponse env history userMessage memories w =
     (if unset (GROQ_API_KEY env)
      then (Inl (Error ''GROQ_API_KEY environment variable is not set.''), w)
      else
        let request = \<lparr>req_messages =
                         [(Role_system, systemPrompt memories)] @ map toGroqMessage history @
                         [(Role_user, userMessage)],
                       req_model = ''llama-3.1-8b-instant'',
                       req_temperature = 7 / 10,
                       req_max_tokens = Some 1024,
                       req_response_format = None\<rparr>;
            w1 = emit (Groq Generate_reply request (groq env request)) w;
            empty = (Inr ''I apologize, but I could not generate a response at this time. Please try again.'',
                     emit (Console_error ''Groq API returned an empty response.'') w1)
        in case groq env request of
             Raises \<Rightarrow>
               (Inr ''I apologize, but I am currently experiencing technical difficulties. Please try again in a moment.'',
                emit (Console_error ''Error communicating with Groq API:'') w1)
           | Returned None \<Rightarrow> empty
           | Returned (Some aiResponse) \<Rightarrow> (if aiResponse = [] then empty else (Inr aiResponse, w1)))"

definition title_prompt :: "string \<Rightarrow> string" where
  \<open>title_prompt firstMessage =
     ''\<newline>'' @
     ''  Generate a very concise, 3-5 word title for a customer support chat that starts with this message:\<newline>'' @
     ''  "'' @
     firstMessage @
     ''"\<newline>'' @
     ''  \<newline>'' @
     ''  Return ONLY the title string, no quotes, no punctuation at the end.\<newline>'' @
     ''  Example Input: "My cat keyboard keys are sticky"\<newline>'' @
     ''  Example Output: Sticky Keyboard Keys Issue\<newline>'' @
     ''  ''\<close>

definition generateChatTitle :: "env \<Rightarrow> string \<Rightarrow> world \<Rightarrow> string \<times> world" where
  "generateChatTitle env firstMessage w =
     (let request = \<lparr>req_messages = [(Role_user, title_prompt firstMessage)],
                     req_model = ''llama-3.1-8b-instant'',
                     req_temperature = 1 / 2,
                     req_max_tokens = None,
                     req_response_format = None\<rparr>;
          w1 = emit (Groq Generate_title request (groq env request)) w
      in case groq env request of
           Raises \<Rightarrow> (''New Conversation'', emit (Console_error ''Error generating title:'') w1)
         | Returned None \<Rightarrow> (''New Conversation'', w1)
         | Returned (Some content) \<Rightarrow>
             (if trim content = [] then ''New Conversation'' else trim content, w1))"

section \<open>Memories: \<open>lib/memory.ts\<close>\<close>

definition getMemories :: "env \<Rightarrow> string \<Rightarrow> world \<Rightarrow> string list \<times> world" where
  "getMemories env userId w =
     (case select_memories env Read_memories userId w of
        (None, w1) \<Rightarrow> ([], emit (Console_error ''Error fetching memories:'') w1)
      | (Some data, w1) \<Rightarrow> (map mem_content data, w1))"

definition extractionPrompt :: "string \<Rightarrow> string \<Rightarrow> string" where
  \<open>extractionPrompt userMessage aiResponse =
     ''\<newline>'' @
     ''    Analyze the following interaction between a User and an AI Assistant.\<newline>'' @
     ''    Extract key *permanent* facts about the User (e.g., name, location, preferences, job, purchases, issues).\<newline>'' @
     ''    \<newline>'' @
     ''    **CRITICAL:** If the User asserts a fact about themselves or their history (e.g., "I bought a keyboard"), capture it as a fact even if the AI Assistant disagrees or claims it doesn't sell that item.\<newline>'' @
     ''    \<newline>'' @
     ''    Ignore temporary context (e.g., "I'm hungry", "What time is it?").\<newline>'' @
     ''    Ignore facts about the AI.\<newline>'' @
     ''    \<newline>'' @
     ''    User: "'' @
     userMessage @
     ''"\<newline>'' @
     ''    AI: "'' @
     aiResponse @
     ''"\<newline>'' @
     ''    \<newline>'' @
     ''    Return a JSON object with a key "facts" containing an array of strings. \<newline>'' @
     ''    If no new permanent facts are found, return an empty array.\<newline>'' @
     ''    Example: { "facts": ["User bought a cat keyboard", "User lives in Mumbai"] }\<newline>'' @
     ''    ''\<close>

text \<open>
  The block \<open>if (newFacts.length > 0) { ... newFacts.map(...) ... insert ... }\<close> on the value
  \<open>result.facts || []\<close>. Only an array has a \<open>map\<close>: on a string (its length is positive,
  the value being truthy) and on an object whose \<open>length\<close> compares greater than zero,
  \<open>newFacts.map\<close> raises a TypeError, which the enclosing \<open>catch\<close> logs. A number and
  \<open>true\<close> have no \<open>length\<close>, and \<open>undefined > 0\<close> is false.
\<close>

definition store_new_facts :: "env \<Rightarrow> string \<Rightarrow> json \<Rightarrow> world \<Rightarrow> world" where
  "store_new_facts env userId newFacts w =
     (case newFacts of
        JArr facts \<Rightarrow>
          (if length facts > 0
           then (case insert_memories env Store_facts userId facts w of
                   (True, w1) \<Rightarrow> w1
                 | (False, w1) \<Rightarrow> emit (Console_error ''Error storing memories:'') w1)
           else w)
      | JStr s \<Rightarrow> emit (Console_error ''Error in fact extraction:'') w
      | JObj kvs \<Rightarrow>
          (if (case field ''length'' newFacts of
                 JUndefined \<Rightarrow> False
               | JNull \<Rightarrow> False
               | JBool b \<Rightarrow> b
               | JNum n \<Rightarrow> n > 0
               | JObj props \<Rightarrow> False
               | v \<Rightarrow> greater_than_zero env v)
           then emit (Console_error ''Error in fact extraction:'') w
           else w)
      | _ \<Rightarrow> w)"

text \<open>
  \<open>summarizeAndStoreFacts\<close> returns nothing and raises nothing: its whole body is inside
  \<open>try\<close>, and the \<open>catch\<close> logs. \<open>result.facts\<close> on \<open>null\<close> raises a TypeError.
\<close>

definition summarizeAndStoreFacts ::
  "env \<Rightarrow> string \<Rightarrow> string \<Rightarrow> string \<Rightarrow> world \<Rightarrow> world" where
  "summarizeAndStoreFacts env userId userMessage aiResponse w =
     (let request = \<lparr>req_messages = [(Role_user, extractionPrompt userMessage aiResponse)],
                     req_model = ''llama-3.1-8b-instant'',
                     req_temperature = 1 / 10,
                     req_max_tokens = None,
                     req_response_format = Some ''json_object''\<rparr>;
          w1 = emit (Groq Extract_facts request (groq env request)) w
      in case groq env request of
           Raises \<Rightarrow> emit (Console_error ''Error in fact extraction:'') w1
         | Returned None \<Rightarrow> w1
         | Returned (Some responseContent) \<Rightarrow>
             (if responseContent = [] then w1
              else case JSON_parse env responseContent of
                     None \<Rightarrow> emit (Console_error ''Error in fact extraction:'') w1
                   | Some JNull \<Rightarrow> emit (Console_error ''Error in fact extraction:'') w1
                   | Some result \<Rightarrow>
                       store_new_facts env userId
                         (if truthy (field ''facts'' result) then field ''facts'' result else JArr [])
                         w1))"

section \<open>The routes\<close>

datatype body =
    Error_body string
  | Session_body string
  | Reply_body string string
  | Messages_body "(sender \<times> string \<times> nat) list"
  | Conversations_body "(string \<times> string option \<times> nat) list"

datatype response = Response nat body

subsection \<open>\<open>POST /api/chat\<close>\<close>

text \<open>The \<open>catch\<close> of the handler.\<close>

definition internal_error :: "world \<Rightarrow> response \<times> world" where
  "internal_error w =
     (Response 500 (Error_body ''Internal Server Error''),
      emit (Console_error ''Chat API error:'') w)"

text \<open>Step 1 of the handler: a request with a name and no message creates a conversation.\<close>

definition create_named_conversation ::
  "env \<Rightarrow> string \<Rightarrow> json \<Rightarrow> world \<Rightarrow> response \<times> world" where
  "create_named_conversation env userId name w =
     (case insert_conversation env Create_named_conversation userId name w of
        (None, w1) \<Rightarrow>
          (Response 500 (Error_body ''Failed to create new named conversation.''),
           emit (Console_error ''Error creating named conversation:'') w1)
      | (Some new_id, w1) \<Rightarrow> (Response 200 (Session_body new_id), w1))"

text \<open>
  Step 2: find or create the conversation of the message. The result is the handler's
  \<open>conversationId\<close>: the identifier the store generated, or the \<open>sessionId\<close> of the
  request as it came, once the ownership query has found its row.
\<close>

definition resolve_conversation ::
  "env \<Rightarrow> string \<Rightarrow> json \<Rightarrow> world \<Rightarrow> (response + json) \<times> world" where
  "resolve_conversation env userId sessionId w =
     (if \<not> truthy sessionId
      then (case insert_conversation env Create_conversation userId (JStr ''New Chat'') w of
              (None, w1) \<Rightarrow>
                (Inl (Response 500 (Error_body ''Failed to start new conversation.'')), w1)
            | (Some new_id, w1) \<Rightarrow> (Inr (JStr new_id), w1))
      else (case select_own_conversation env Verify_ownership sessionId userId w of
              (None, w1) \<Rightarrow>
                (Inl (Response 404 (Error_body ''Conversation not found or access denied.'')), w1)
            | (Some row_id, w1) \<Rightarrow> (Inr sessionId, w1)))"

text \<open>
  The auto-title task. The handler starts it and does not wait for it; the model runs it
  to its end where it is started. It writes only the name of the conversation, which
  nothing else in the handler reads or writes.
\<close>

definition auto_title :: "env \<Rightarrow> string \<Rightarrow> string \<Rightarrow> world \<Rightarrow> world" where
  "auto_title env conversationId message w =
     (case generateChatTitle env message w of
        (title, w1) \<Rightarrow> snd (update_conversation_name env Update_title conversationId title w1))"

text \<open>
  Steps 3 to 7, for a validated user and message. The column \<open>conversation_id\<close> of a
  message is a UUID: the store rejects the insert of the user's message when
  \<open>conversationId\<close> is not a string, and the handler throws.
\<close>

definition chat_turn ::
  "env \<Rightarrow> string \<Rightarrow> string \<Rightarrow> json \<Rightarrow> world \<Rightarrow> response \<times> world" where
  "chat_turn env userId message sessionId w =
     (case resolve_conversation env userId sessionId w of
        (Inl resp, w1) \<Rightarrow> (resp, w1)
      | (Inr (JStr conversationId), w1) \<Rightarrow>
          (case insert_message env Save_user_message conversationId Sender_user message w1 of
             (False, w2) \<Rightarrow> internal_error w2
           | (True, w2) \<Rightarrow>
               (case select_messages env Read_history conversationId w2 of
                  (historyResult, w3) \<Rightarrow>
                    (case getMemories env userId w3 of
                       (memories, w4) \<Rightarrow>
                         (case historyResult of
                            None \<Rightarrow> internal_error w4
                          | Some data \<Rightarrow>
                              let w5 = (if length data = 1 \<and> msg_sender (data ! 0) = Sender_user
                                        then auto_title env conversationId message w4
                                        else w4);
                                  conversationHistory =
                                    map (\<lambda>msg. \<lparr>entry_sender = msg_sender msg,
                                                  entry_content = msg_content msg\<rparr>) data
                              in (case generateAIResponse env conversationHistory message memories w5 of
                                    (Inl e, w6) \<Rightarrow> internal_error w6
                                  | (Inr aiResponse, w6) \<Rightarrow>
                                      let w7 = snd (insert_message env Save_ai_message
                                                      conversationId Sender_ai aiResponse w6);
                                          w8 = summarizeAndStoreFacts env userId message aiResponse w7
                                      in (Response 200 (Reply_body aiResponse conversationId), w8))))))
      | (Inr other, w1) \<Rightarrow> internal_error (emit (Storage Save_user_message Failed) w1))"

text \<open>
  The handler. The request is the parsed body, \<open>None\<close> when \<open>req.json()\<close> raises;
  destructuring \<open>null\<close> or \<open>undefined\<close> raises too.
\<close>

definition POST :: "env \<Rightarrow> json option \<Rightarrow> world \<Rightarrow> response \<times> world" where
  "POST env req w =
     (if unset (NEXT_PUBLIC_SUPABASE_URL env) \<or> unset (NEXT_PUBLIC_SUPABASE_PUBLISHABLE_KEY env)
         \<or> unset (GROQ_API_KEY env)
      then (Response 500 (Error_body ''Missing environment variables.''), w)
      else
        (case req of
           None \<Rightarrow> internal_error w
         | Some JNull \<Rightarrow> internal_error w
         | Some JUndefined \<Rightarrow> internal_error w
         | Some b \<Rightarrow>
             (let message = field ''message'' b;
                  sessionId = field ''sessionId'' b;
                  userId = field ''userId'' b;
                  name = field ''name'' b
              in (case required_string userId of
                    None \<Rightarrow> (Response 400 (Error_body ''User ID (Name) is required.''), w)
                  | Some uid \<Rightarrow>
                      (if \<not> truthy message \<and> truthy name
                       then create_named_conversation env uid name w
                       else (case required_string message of
                               None \<Rightarrow>
                                 (Response 400 (Error_body ''Message content is required.''), w)
                             | Some msg \<Rightarrow> chat_turn env uid msg sessionId w))))))"

subsection \<open>\<open>GET /api/chat/history\<close> and \<open>GET /api/chat/sessions\<close>\<close>

text \<open>The argument is \<open>searchParams.get(...)\<close>: \<open>None\<close> when the parameter is absent.\<close>

definition GET_history :: "env \<Rightarrow> string option \<Rightarrow> world \<Rightarrow> response \<times> world" where
  "GET_history env sessionId w =
     (if unset (NEXT_PUBLIC_SUPABASE_URL env)
      then (Response 500 (Error_body ''Environment variable NEXT_PUBLIC_SUPABASE_URL is not set.''),
            emit (Console_error ''Environment variable NEXT_PUBLIC_SUPABASE_URL is not set.'') w)
      else if unset (NEXT_PUBLIC_SUPABASE_PUBLISHABLE_KEY env)
      then (Response 500 (Error_body ''Environment variable NEXT_PUBLIC_SUPABASE_PUBLISHABLE_KEY is not set.''),
            emit (Console_error ''Environment variable NEXT_PUBLIC_SUPABASE_PUBLISHABLE_KEY is not set.'') w)
      else if unset sessionId
      then (Response 400 (Error_body ''Session ID is required.''),
            emit (Console_error ''Session ID is required.'') w)
      else (case select_messages env History_route_read (the sessionId) w of
              (None, w1) \<Rightarrow>
                (Response 500 (Error_body ''Failed to retrieve message history.''),
                 emit (Console_error ''Error fetching messages:'') w1)
            | (Some rows, w1) \<Rightarrow>
                (Response 200
                   (Messages_body (map (\<lambda>m. (msg_sender m, msg_content m, msg_created_at m)) rows)),
                 w1)))"

definition GET_sessions :: "env \<Rightarrow> string option \<Rightarrow> world \<Rightarrow> response \<times> world" where
  "GET_sessions env userId w =
     (if unset (NEXT_PUBLIC_SUPABASE_URL env)
      then (Response 500 (Error_body ''Environment variable NEXT_PUBLIC_SUPABASE_URL is not set.''),
            emit (Console_error ''Environment variable NEXT_PUBLIC_SUPABASE_URL is not set.'') w)
      else if unset (NEXT_PUBLIC_SUPABASE_PUBLISHABLE_KEY env)
      then (Response 500 (Error_body ''Environment variable NEXT_PUBLIC_SUPABASE_PUBLISHABLE_KEY is not set.''),
            emit (Console_error ''Environment variable NEXT_PUBLIC_SUPABASE_PUBLISHABLE_KEY is not set.'') w)
      else if unset userId
      then (Response 400 (Error_body ''User ID is required.''),
            emit (Console_error ''User ID is required.'') w)
      else (case select_conversations env Sessions_route_read (the userId) w of
              (None, w1) \<Rightarrow>
                (Response 500 (Error_body ''Failed to retrieve conversations.''),
                 emit (Console_error ''Error fetching conversations:'') w1)
            | (Some rows, w1) \<Rightarrow>
                (Response 200
                   (Conversations_body (map (\<lambda>c. (conv_id c, conv_name c, conv_created_at c)) rows)),
                 w1)))"

section \<open>Reading a run\<close>

text \<open>A run starts on a database with nothing recorded yet.\<close>

definition start :: "db \<Rightarrow> world" where
  "start d = \<lparr>store = d, trace = []\<rparr>"

text \<open>The completion requests a trace holds for a call site, with their outcomes.\<close>

fun completions :: "call_site \<Rightarrow> event list \<Rightarrow> (groq_request \<times> completion) list" where
  "completions site [] = []"
| "completions site (Groq s r out # es) =
     (if s = site then (r, out) # completions site es else completions site es)"
| "completions site (Storage op res # es) = completions site es"
| "completions site (Console_error m # es) = completions site es"

text \<open>The results the store gave at a call site.\<close>

fun storage_results :: "db_op \<Rightarrow> event list \<Rightarrow> storage_result list" where
  "storage_results op [] = []"
| "storage_results op (Storage op' res # es) =
     (if op' = op then res # storage_results op es else storage_results op es)"
| "storage_results op (Groq s r out # es) = storage_results op es"
| "storage_results op (Console_error m # es) = storage_results op es"

text \<open>The messages of one conversation and the memories of one user, in table order.\<close>

definition messages_of :: "string \<Rightarrow> db \<Rightarrow> message list" where
  "messages_of cid d = filter (\<lambda>m. msg_conversation_id m = cid) (messages_table d)"

definition memories_of :: "string \<Rightarrow> db \<Rightarrow> memory list" where
  "memories_of uid d = filter (\<lambda>m. mem_user_id m = uid) (memories_table d)"

text \<open>The request each call site sends to the completion service.\<close>

definition reply_request :: "ConversationEntry list \<Rightarrow> string \<Rightarrow> string list \<Rightarrow> groq_request" where
  "reply_request history userMessage memories =
     \<lparr>req_messages =
        [(Role_system, systemPrompt memories)] @ map toGroqMessage history @
        [(Role_user, userMessage)],
      req_model = ''llama-3.1-8b-instant'',
      req_temperature = 7 / 10,
      req_max_tokens = Some 1024,
      req_response_format = None\<rparr>"

definition title_request :: "string \<Rightarrow> groq_request" where
  "title_request firstMessage =
     \<lparr>req_messages = [(Role_user, title_prompt firstMessage)],
      req_model = ''llama-3.1-8b-instant'',
      req_temperature = 1 / 2,
      req_max_tokens = None,
      req_response_format = None\<rparr>"


text \<open>
  Requests served one after another, each by its own environment: the database after
  the last of them.
\<close>

fun run :: "(env \<times> json option) list \<Rightarrow> db \<Rightarrow> db" where
  "run [] d = d"
| "run ((env, req) # rs) d = run rs (store (snd (POST env req (start d))))"

section \<open>Sample inputs\<close>

text \<open>
  A configured environment whose store and completion service work: the service answers
  the extraction request (the one asking for a JSON object) with one fact, the reply
  request (the one with a token limit) with a reply, and the title request with a title.
\<close>

definition sample_groq :: "groq_request \<Rightarrow> completion" where
  \<open>sample_groq r =
     (if req_response_format r = Some ''json_object''
      then Returned (Some ''{"facts": ["User lives in Mumbai"]}'')
      else if req_max_tokens r = Some 1024
      then Returned (Some ''You can return any item within 30 days.'')
      else Returned (Some '' Return Policy Question ''))\<close>

definition sample_parse :: "string \<Rightarrow> json option" where
  \<open>sample_parse s =
     (if s = ''{"facts": ["User lives in Mumbai"]}''
      then Some (JObj [(''facts'', JArr [JStr ''User lives in Mumbai''])])
      else if s = ''{"facts": [7]}''
      then Some (JObj [(''facts'', JArr [JNum 7])])
      else None)\<close>

definition env_ok :: env where
  "env_ok =
     \<lparr>NEXT_PUBLIC_SUPABASE_URL = Some ''https://project.supabase.co'',
      NEXT_PUBLIC_SUPABASE_PUBLISHABLE_KEY = Some ''anon'',
      GROQ_API_KEY = Some ''gsk'',
      storage_fails = (\<lambda>op. False),
      generated_id = ''c3'',
      now = (\<lambda>op. case op of Save_ai_message \<Rightarrow> 21 | Store_facts \<Rightarrow> 22 | _ \<Rightarrow> 20),
      coerce_text = (\<lambda>v. if v = JNum 7 then Some ''7'' else None),
      groq = sample_groq,
      JSON_parse = sample_parse,
      greater_than_zero = (\<lambda>v. False),
      to_string = (\<lambda>v. case v of JArr [JStr s] \<Rightarrow> s | _ \<Rightarrow> ''[object Object]'')\<rparr>"

definition db_sample :: db where
  "db_sample =
     \<lparr>conversations_table =
        [\<lparr>conv_id = ''c1'', conv_user_id = ''alice'', conv_name = Some ''Support'',
          conv_created_at = 1\<rparr>,
         \<lparr>conv_id = ''c2'', conv_user_id = ''bob'', conv_name = Some ''New Chat'',
          conv_created_at = 2\<rparr>],
      messages_table =
        [\<lparr>msg_conversation_id = ''c2'', msg_sender = Sender_ai,
          msg_content = ''We ship within the USA only.'', msg_created_at = 4\<rparr>,
         \<lparr>msg_conversation_id = ''c2'', msg_sender = Sender_user,
          msg_content = ''Do you ship to Canada?'', msg_created_at = 3\<rparr>],
      memories_table =
        [\<lparr>mem_user_id = ''alice'', mem_content = ''User lives in Mumbai'', mem_created_at = 5\<rparr>,
         \<lparr>mem_user_id = ''bob'', mem_content = ''User likes cats'', mem_created_at = 3\<rparr>,
         \<lparr>mem_user_id = ''alice'', mem_content = ''User bought a cat keyboard'',
          mem_created_at = 2\<rparr>,
         \<lparr>mem_user_id = ''alice'', mem_content = ''User lives in Mumbai'', mem_created_at = 7\<rparr>]\<rparr>"

text \<open>Requests by alice: a message on her conversation, and a message with no conversation.\<close>

definition req_on_c1 :: json where
  "req_on_c1 =
     JObj [(''message'', JStr ''What is your return policy?''),
           (''sessionId'', JStr ''c1''),
           (''userId'', JStr ''alice'')]"

definition req_no_session :: json where
  "req_no_session =
     JObj [(''message'', JStr ''What is your return policy?''),
           (''userId'', JStr ''alice'')]"

text \<open>A request by alice on the conversation of bob.\<close>

definition req_to_c2 :: json where
  "req_to_c2 =
     JObj [(''message'', JStr ''Do you ship to Canada?''),
           (''sessionId'', JStr ''c2''),
           (''userId'', JStr ''alice'')]"

text \<open>The same request, with the identifier wrapped in an array.\<close>

definition req_to_c2_array :: json where
  "req_to_c2_array =
     JObj [(''message'', JStr ''Do you ship to Canada?''),
           (''sessionId'', JArr [JStr ''c2'']),
           (''userId'', JStr ''alice'')]"

text \<open>A request by alice on her own conversation, with the identifier wrapped in an array.\<close>

definition req_on_c1_array :: json where
  "req_on_c1_array =
     JObj [(''message'', JStr ''What is your return policy?''),
           (''sessionId'', JArr [JStr ''c1'']),
           (''userId'', JStr ''alice'')]"

text \<open>
  A request to create a named conversation, a request without a user identifier and a
  request with neither a message nor a name.
\<close>

definition req_named :: json where
  "req_named = JObj [(''userId'', JStr ''alice''), (''name'', JStr ''Support'')]"

definition req_no_user :: json where
  "req_no_user = JObj [(''message'', JStr ''What is your return policy?'')]"

definition req_no_message :: json where
  "req_no_message = JObj [(''userId'', JStr ''alice''), (''message'', JStr ''  '')]"

text \<open>Environments in which one thing goes wrong.\<close>

definition env_llm_raises :: env where
  "env_llm_raises = env_ok\<lparr>groq := (\<lambda>r. Raises)\<rparr>"

definition env_llm_empty :: env where
  "env_llm_empty = env_ok\<lparr>groq := (\<lambda>r. Returned None)\<rparr>"

definition env_ai_insert_fails :: env where
  "env_ai_insert_fails = env_ok\<lparr>storage_fails := (\<lambda>op. op = Save_ai_message)\<rparr>"

definition env_llm_raises_ai_insert_fails :: env where
  "env_llm_raises_ai_insert_fails =
     env_ok\<lparr>groq := (\<lambda>r. Raises), storage_fails := (\<lambda>op. op = Save_ai_message)\<rparr>"

definition env_memories_down :: env where
  "env_memories_down = env_ok\<lparr>storage_fails := (\<lambda>op. op = Read_memories)\<rparr>"

definition env_facts_insert_fails :: env where
  "env_facts_insert_fails = env_ok\<lparr>storage_fails := (\<lambda>op. op = Store_facts)\<rparr>"

definition env_history_down :: env where
  "env_history_down =
     env_ok\<lparr>storage_fails := (\<lambda>op. op = Read_history \<or> op = History_route_read)\<rparr>"

text \<open>
  Environments whose completion service answers the extraction request with a list that
  holds a number, and with text that is not JSON.
\<close>

definition env_facts_number :: env where
  \<open>env_facts_number =
     env_ok\<lparr>groq := (\<lambda>r. if req_response_format r = Some ''json_object''
                           then Returned (Some ''{"facts": [7]}'')
                           else sample_groq r)\<rparr>\<close>

definition env_facts_unparseable :: env where
  \<open>env_facts_unparseable =
     env_ok\<lparr>groq := (\<lambda>r. if req_response_format r = Some ''json_object''
                           then Returned (Some ''No new facts.'')
                           else sample_groq r)\<rparr>\<close>

section \<open>Basic facts\<close>

lemma store_emit [simp]: "store (emit e w) = store w"
  by (simp add: emit_def)

lemma trace_emit [simp]: "trace (emit e w) = trace w @ [e]"
  by (simp add: emit_def)

lemma start_simps [simp]: "store (start d) = d" "trace (start d) = []"
  by (simp_all add: start_def)

lemma completions_append [simp]:
  "completions site (xs @ ys) = completions site xs @ completions site ys"
  by (induction site xs rule: completions.induct) auto

lemma storage_results_append [simp]:
  "storage_results op (xs @ ys) = storage_results op xs @ storage_results op ys"
  by (induction op xs rule: storage_results.induct) auto

lemma table_frames [simp]:
  "memories_of uid (d\<lparr>messages_table := x\<rparr>) = memories_of uid d"
  "memories_of uid (d\<lparr>conversations_table := y\<rparr>) = memories_of uid d"
  "messages_of cid (d\<lparr>memories_table := z\<rparr>) = messages_of cid d"
  "messages_of cid (d\<lparr>conversations_table := y\<rparr>) = messages_of cid d"
  by (simp_all add: memories_of_def messages_of_def)

lemma getMemories_simps [simp]:
  "fst (getMemories env uid w) =
     (if storage_fails env Read_memories then []
      else map mem_content (sort_key mem_created_at (memories_of uid (store w))))"
  "store (snd (getMemories env uid w)) = store w"
  "trace (snd (getMemories env uid w)) =
     trace w @
       (if storage_fails env Read_memories
        then [Storage Read_memories Failed, Console_error ''Error fetching memories:'']
        else [Storage Read_memories
                (Memory_rows (sort_key mem_created_at (memories_of uid (store w))))])"
  by (simp_all add: getMemories_def select_memories_def memories_of_def Let_def)

lemma insert_message_simps [simp]:
  "fst (insert_message env op cid s c w) = (\<not> storage_fails env op)"
  "store (snd (insert_message env op cid s c w)) =
     (if storage_fails env op then store w
      else (store w)\<lparr>messages_table := messages_table (store w) @
             [\<lparr>msg_conversation_id = cid, msg_sender = s, msg_content = c,
               msg_created_at = now env op\<rparr>]\<rparr>)"
  "trace (snd (insert_message env op cid s c w)) =
     trace w @ [Storage op (if storage_fails env op then Failed else Done)]"
  by (simp_all add: insert_message_def Let_def)

lemma select_messages_simps [simp]:
  "fst (select_messages env op cid w) =
     (if storage_fails env op then None
      else Some (sort_key msg_created_at (messages_of cid (store w))))"
  "store (snd (select_messages env op cid w)) = store w"
  "trace (snd (select_messages env op cid w)) =
     trace w @ [Storage op (if storage_fails env op then Failed
                            else Message_rows (sort_key msg_created_at (messages_of cid (store w))))]"
  by (simp_all add: select_messages_def messages_of_def Let_def)

lemma internal_error_simps [simp]:
  "fst (internal_error w) = Response 500 (Error_body ''Internal Server Error'')"
  "store (snd (internal_error w)) = store w"
  "trace (snd (internal_error w)) = trace w @ [Console_error ''Chat API error:'']"
  by (simp_all add: internal_error_def)

lemma insert_memories_simps:
  "fst (insert_memories env op uid fs w) = (\<not> storage_fails env op \<and> all_text env fs \<noteq> None)"
  "store (snd (insert_memories env op uid fs w)) =
     (if storage_fails env op \<or> all_text env fs = None then store w
      else (store w)\<lparr>memories_table := memories_table (store w) @
             map (\<lambda>s. \<lparr>mem_user_id = uid, mem_content = s, mem_created_at = now env op\<rparr>)
               (the (all_text env fs))\<rparr>)"
  "trace (snd (insert_memories env op uid fs w)) =
     trace w @ [Storage op (if storage_fails env op \<or> all_text env fs = None then Failed else Done)]"
  by (auto simp: insert_memories_def Let_def split: option.splits)

text \<open>What fact extraction leaves alone.\<close>

lemma store_new_facts_frame [simp]:
  "messages_table (store (store_new_facts env uid v w)) = messages_table (store w)"
  "conversations_table (store (store_new_facts env uid v w)) = conversations_table (store w)"
  "completions site (trace (store_new_facts env uid v w)) = completions site (trace w)"
  "op' \<noteq> Store_facts \<Longrightarrow>
     storage_results op' (trace (store_new_facts env uid v w)) = storage_results op' (trace w)"
  by (auto simp: store_new_facts_def insert_memories_simps case_prod_beta
      split: json.splits bool.splits)

lemma summarize_frame [simp]:
  "messages_table (store (summarizeAndStoreFacts env uid m a w)) = messages_table (store w)"
  "conversations_table (store (summarizeAndStoreFacts env uid m a w)) =
     conversations_table (store w)"
  "site \<noteq> Extract_facts \<Longrightarrow>
     completions site (trace (summarizeAndStoreFacts env uid m a w)) = completions site (trace w)"
  "op' \<noteq> Store_facts \<Longrightarrow>
     storage_results op' (trace (summarizeAndStoreFacts env uid m a w)) =
       storage_results op' (trace w)"
  by (auto simp: summarizeAndStoreFacts_def Let_def
      split: completion.splits option.splits json.splits)

lemma store_new_facts_grows:
  "prefix xs (memories_table (store w)) \<Longrightarrow>
     prefix xs (memories_table (store (store_new_facts env uid v w)))"
  by (auto simp: store_new_facts_def insert_memories_simps case_prod_beta
      split: json.splits bool.splits)

lemma summarize_grows:
  "prefix (memories_table (store w))
     (memories_table (store (summarizeAndStoreFacts env uid m a w)))"
  by (auto simp: summarizeAndStoreFacts_def Let_def intro!: store_new_facts_grows
      split: completion.splits option.splits json.splits)

text \<open>The title of a completion outcome, and what the auto-title task does.\<close>

lemma generateChatTitle_simps:
  "trace (snd (generateChatTitle env m w)) =
     trace w @ Groq Generate_title (title_request m) (groq env (title_request m)) #
       (if groq env (title_request m) = Raises
        then [Console_error ''Error generating title:''] else [])"
  "fst (generateChatTitle env m w) =
     (case groq env (title_request m) of
        Returned (Some c) \<Rightarrow> if trim c = [] then ''New Conversation'' else trim c
      | _ \<Rightarrow> ''New Conversation'')"
  "store (snd (generateChatTitle env m w)) = store w"
  by (auto simp: generateChatTitle_def title_request_def Let_def
      split: completion.splits option.splits)

lemma auto_title_frame [simp]:
  "messages_table (store (auto_title env cid m w)) = messages_table (store w)"
  "memories_table (store (auto_title env cid m w)) = memories_table (store w)"
  "site \<noteq> Generate_title \<Longrightarrow>
     completions site (trace (auto_title env cid m w)) = completions site (trace w)"
  "op' \<noteq> Update_title \<Longrightarrow>
     storage_results op' (trace (auto_title env cid m w)) = storage_results op' (trace w)"
  by (auto simp: auto_title_def generateChatTitle_def update_conversation_name_def Let_def
      split: completion.splits option.splits)

lemma auto_title_effect:
  "completions Generate_title (trace (auto_title env cid m w)) =
     completions Generate_title (trace w) @ [(title_request m, groq env (title_request m))]"
  "storage_results Update_title (trace (auto_title env cid m w)) =
     storage_results Update_title (trace w) @
       [if storage_fails env Update_title then Failed else Done]"
  "conversations_table (store (auto_title env cid m w)) =
     (if storage_fails env Update_title then conversations_table (store w)
      else map (\<lambda>c. if conv_id c = cid
                     then c\<lparr>conv_name := Some (fst (generateChatTitle env m w))\<rparr>
                     else c)
             (conversations_table (store w)))"
  by (auto simp: auto_title_def generateChatTitle_def title_request_def
        update_conversation_name_def Let_def
      split: completion.splits option.splits)

text \<open>The reply generator.\<close>

lemma generate_frame [simp]:
  "store (snd (generateAIResponse env h m ms w)) = store w"
  "site \<noteq> Generate_reply \<Longrightarrow>
     completions site (trace (snd (generateAIResponse env h m ms w))) = completions site (trace w)"
  "storage_results op' (trace (snd (generateAIResponse env h m ms w))) =
     storage_results op' (trace w)"
  by (auto simp: generateAIResponse_def Let_def split: completion.splits option.splits)

lemma generate_unset:
  "unset (GROQ_API_KEY env) \<Longrightarrow>
     generateAIResponse env h m ms w =
       (Inl (Error ''GROQ_API_KEY environment variable is not set.''), w)"
  by (simp add: generateAIResponse_def)

lemma generate_reply:
  assumes "\<not> unset (GROQ_API_KEY env)"
  shows "completions Generate_reply (trace (snd (generateAIResponse env h m ms w))) =
           completions Generate_reply (trace w) @
             [(reply_request h m ms, groq env (reply_request h m ms))]"
    and "fst (generateAIResponse env h m ms w) =
           Inr (case groq env (reply_request h m ms) of
                  Raises \<Rightarrow> ''I apologize, but I am currently experiencing technical difficulties. Please try again in a moment.''
                | Returned None \<Rightarrow> ''I apologize, but I could not generate a response at this time. Please try again.''
                | Returned (Some c) \<Rightarrow>
                    if c = [] then ''I apologize, but I could not generate a response at this time. Please try again.''
                    else c)"
  using assms
  by (auto simp: generateAIResponse_def reply_request_def Let_def
      split: completion.splits option.splits)

text \<open>Resolving the conversation.\<close>

lemma resolve_frame [simp]:
  "messages_table (store (snd (resolve_conversation env uid sid w))) = messages_table (store w)"
  "memories_table (store (snd (resolve_conversation env uid sid w))) = memories_table (store w)"
  "completions site (trace (snd (resolve_conversation env uid sid w))) = completions site (trace w)"
  "op' \<noteq> Create_conversation \<Longrightarrow> op' \<noteq> Verify_ownership \<Longrightarrow>
     storage_results op' (trace (snd (resolve_conversation env uid sid w))) =
       storage_results op' (trace w)"
  by (auto simp: resolve_conversation_def insert_conversation_def select_own_conversation_def
        text_value_def Let_def split: option.splits json.splits list.splits)

lemma resolve_Inl:
  "fst (resolve_conversation env uid sid w) = Inl r \<Longrightarrow>
     store (snd (resolve_conversation env uid sid w)) = store w
     \<and> (if truthy sid
        then r = Response 404 (Error_body ''Conversation not found or access denied.'')
        else r = Response 500 (Error_body ''Failed to start new conversation.''))"
  by (auto simp: resolve_conversation_def insert_conversation_def select_own_conversation_def
        text_value_def Let_def split: option.splits json.splits list.splits if_splits)

lemma resolve_Inr_value:
  "fst (resolve_conversation env uid sid w) = Inr v \<Longrightarrow>
     (if truthy sid then v = sid else v = JStr (generated_id env))"
  by (auto simp: resolve_conversation_def insert_conversation_def select_own_conversation_def
        text_value_def Let_def split: option.splits list.splits if_splits)

lemma resolve_Inr:
  "fst (resolve_conversation env uid sid w) = Inr (JStr cid) \<Longrightarrow>
     (if truthy sid
      then sid = JStr cid
         \<and> conversations_table (store (snd (resolve_conversation env uid sid w))) =
             conversations_table (store w)
      else cid = generated_id env
         \<and> conversations_table (store (snd (resolve_conversation env uid sid w))) =
             conversations_table (store w) @
               [\<lparr>conv_id = generated_id env, conv_user_id = uid, conv_name = Some ''New Chat'',
                 conv_created_at = now env Create_conversation\<rparr>])"
  by (auto simp: resolve_conversation_def insert_conversation_def select_own_conversation_def
        text_value_def Let_def split: option.splits json.splits list.splits if_splits)


lemma create_named_frame [simp]:
  "messages_table (store (snd (create_named_conversation env uid name w))) =
     messages_table (store w)"
  "memories_table (store (snd (create_named_conversation env uid name w))) =
     memories_table (store w)"
  "completions site (trace (snd (create_named_conversation env uid name w))) =
     completions site (trace w)"
  "op' \<noteq> Create_named_conversation \<Longrightarrow>
     storage_results op' (trace (snd (create_named_conversation env uid name w))) =
       storage_results op' (trace w)"
  by (auto simp: create_named_conversation_def insert_conversation_def Let_def
      split: option.splits)

lemma create_named_result:
  "fst (create_named_conversation env uid name w) =
     (if storage_fails env Create_named_conversation \<or> text_value env name = None
      then Response 500 (Error_body ''Failed to create new named conversation.'')
      else Response 200 (Session_body (generated_id env)))"
  "conversations_table (store (snd (create_named_conversation env uid name w))) =
     (if storage_fails env Create_named_conversation \<or> text_value env name = None
      then conversations_table (store w)
      else conversations_table (store w) @
             [\<lparr>conv_id = generated_id env, conv_user_id = uid,
               conv_name = text_value env name,
               conv_created_at = now env Create_named_conversation\<rparr>])"
  by (auto simp: create_named_conversation_def insert_conversation_def Let_def
      split: option.splits)

text \<open>The ways a chat turn can end.\<close>

lemma chat_turn_resolved:
  assumes "fst (resolve_conversation env uid sid w) = Inr (JStr cid)"
      and "\<not> storage_fails env Save_user_message"
      and "\<not> storage_fails env Read_history"
  shows "chat_turn env uid msg sid w =
     (let w2 = snd (insert_message env Save_user_message cid Sender_user msg
                      (snd (resolve_conversation env uid sid w)));
          w3 = snd (select_messages env Read_history cid w2);
          data = sort_key msg_created_at (messages_of cid (store w2));
          mems = fst (getMemories env uid w3);
          w4 = snd (getMemories env uid w3);
          w5 = (if length data = 1 \<and> msg_sender (data ! 0) = Sender_user
                then auto_title env cid msg w4 else w4);
          history = map (\<lambda>m. \<lparr>entry_sender = msg_sender m, entry_content = msg_content m\<rparr>) data;
          g = generateAIResponse env history msg mems w5
      in case fst g of
           Inl e \<Rightarrow> internal_error (snd g)
         | Inr aiResponse \<Rightarrow>
             (Response 200 (Reply_body aiResponse cid),
              summarizeAndStoreFacts env uid msg aiResponse
                (snd (insert_message env Save_ai_message cid Sender_ai aiResponse (snd g)))))"
  unfolding chat_turn_def
  by (simp only: case_prod_beta Let_def assms insert_message_simps(1) select_messages_simps(1)
        sum.case json.case option.case bool.case if_False if_True not_False_eq_True simp_thms)

lemma chat_turn_rejected:
  assumes "fst (resolve_conversation env uid sid w) = Inr v" and "\<forall>cid. v \<noteq> JStr cid"
  shows "chat_turn env uid msg sid w =
           internal_error (emit (Storage Save_user_message Failed)
                             (snd (resolve_conversation env uid sid w)))"
  using assms by (cases v) (simp_all add: chat_turn_def case_prod_beta)

lemma chat_turn_cases
  [consumes 1,
   case_names unresolved user_save_failed history_failed key_unset replied rejected_id]:
  assumes "chat_turn env uid msg sid w = (resp, w')"
  obtains
    (unresolved) r where
      "fst (resolve_conversation env uid sid w) = Inl r"
      "resp = r"
      "w' = snd (resolve_conversation env uid sid w)"
  | (user_save_failed) cid w1 where
      "fst (resolve_conversation env uid sid w) = Inr (JStr cid)"
      "w1 = snd (resolve_conversation env uid sid w)"
      "storage_fails env Save_user_message"
      "resp = Response 500 (Error_body ''Internal Server Error'')"
      "w' = snd (internal_error (snd (insert_message env Save_user_message cid Sender_user msg w1)))"
  | (history_failed) cid w1 w2 where
      "fst (resolve_conversation env uid sid w) = Inr (JStr cid)"
      "w1 = snd (resolve_conversation env uid sid w)"
      "\<not> storage_fails env Save_user_message"
      "w2 = snd (insert_message env Save_user_message cid Sender_user msg w1)"
      "storage_fails env Read_history"
      "resp = Response 500 (Error_body ''Internal Server Error'')"
      "w' = snd (internal_error
                  (snd (getMemories env uid (snd (select_messages env Read_history cid w2)))))"
  | (key_unset) cid w1 w2 w4 w5 data where
      "fst (resolve_conversation env uid sid w) = Inr (JStr cid)"
      "w1 = snd (resolve_conversation env uid sid w)"
      "\<not> storage_fails env Save_user_message"
      "w2 = snd (insert_message env Save_user_message cid Sender_user msg w1)"
      "\<not> storage_fails env Read_history"
      "data = sort_key msg_created_at (messages_of cid (store w2))"
      "w4 = snd (getMemories env uid (snd (select_messages env Read_history cid w2)))"
      "w5 = (if length data = 1 \<and> msg_sender (data ! 0) = Sender_user
             then auto_title env cid msg w4 else w4)"
      "unset (GROQ_API_KEY env)"
      "resp = Response 500 (Error_body ''Internal Server Error'')"
      "w' = snd (internal_error w5)"
  | (replied) cid w1 w2 w4 w5 w6 w7 data history mems aiResponse where
      "fst (resolve_conversation env uid sid w) = Inr (JStr cid)"
      "w1 = snd (resolve_conversation env uid sid w)"
      "\<not> storage_fails env Save_user_message"
      "w2 = snd (insert_message env Save_user_message cid Sender_user msg w1)"
      "\<not> storage_fails env Read_history"
      "data = sort_key msg_created_at (messages_of cid (store w2))"
      "w4 = snd (getMemories env uid (snd (select_messages env Read_history cid w2)))"
      "w5 = (if length data = 1 \<and> msg_sender (data ! 0) = Sender_user
             then auto_title env cid msg w4 else w4)"
      "\<not> unset (GROQ_API_KEY env)"
      "history = map (\<lambda>m. \<lparr>entry_sender = msg_sender m, entry_content = msg_content m\<rparr>) data"
      "mems = fst (getMemories env uid (snd (select_messages env Read_history cid w2)))"
      "fst (generateAIResponse env history msg mems w5) = Inr aiResponse"
      "w6 = snd (generateAIResponse env history msg mems w5)"
      "w7 = snd (insert_message env Save_ai_message cid Sender_ai aiResponse w6)"
      "resp = Response 200 (Reply_body aiResponse cid)"
      "w' = summarizeAndStoreFacts env uid msg aiResponse w7"
  | (rejected_id) v where
      "fst (resolve_conversation env uid sid w) = Inr v"
      "\<forall>cid. v \<noteq> JStr cid"
      "resp = Response 500 (Error_body ''Internal Server Error'')"
      "w' = snd (internal_error (emit (Storage Save_user_message Failed)
                                  (snd (resolve_conversation env uid sid w))))"
proof (cases "fst (resolve_conversation env uid sid w)")
  case (Inl r)
  with assms have r: "resp = r" "w' = snd (resolve_conversation env uid sid w)"
    by (simp_all add: chat_turn_def case_prod_beta)
  show ?thesis by (rule unresolved[OF Inl r])
next
  case (Inr v)
  show ?thesis
  proof (cases "\<exists>cid. v = JStr cid")
  case False
  then have v: "\<forall>cid. v \<noteq> JStr cid" by simp
  from assms chat_turn_rejected[OF Inr v, of msg]
  have r: "resp = Response 500 (Error_body ''Internal Server Error'')"
    "w' = snd (internal_error (emit (Storage Save_user_message Failed)
                                (snd (resolve_conversation env uid sid w))))"
    by (simp_all add: internal_error_def)
  show ?thesis by (rule rejected_id[OF Inr v r])
  next
  case True
  then obtain cid where "v = JStr cid" by blast
  with Inr have res: "fst (resolve_conversation env uid sid w) = Inr (JStr cid)" by simp
  define w1 where "w1 = snd (resolve_conversation env uid sid w)"
  define w2 where "w2 = snd (insert_message env Save_user_message cid Sender_user msg w1)"
  define data where "data = sort_key msg_created_at (messages_of cid (store w2))"
  define mems where "mems = fst (getMemories env uid (snd (select_messages env Read_history cid w2)))"
  define w4 where "w4 = snd (getMemories env uid (snd (select_messages env Read_history cid w2)))"
  define w5 where "w5 = (if length data = 1 \<and> msg_sender (data ! 0) = Sender_user
                         then auto_title env cid msg w4 else w4)"
  define history where
    "history = map (\<lambda>m. \<lparr>entry_sender = msg_sender m, entry_content = msg_content m\<rparr>) data"
  show ?thesis
  proof (cases "storage_fails env Save_user_message")
    case True
    with assms res have r: "resp = Response 500 (Error_body ''Internal Server Error'')"
      "w' = snd (internal_error (snd (insert_message env Save_user_message cid Sender_user msg w1)))"
      by (simp_all add: chat_turn_def case_prod_beta internal_error_def w1_def)
    show ?thesis by (rule user_save_failed[OF res w1_def True r])
  next
    case False
    note save = this
    show ?thesis
    proof (cases "storage_fails env Read_history")
      case True
      with assms res save have r: "resp = Response 500 (Error_body ''Internal Server Error'')"
        "w' = snd (internal_error
                (snd (getMemories env uid (snd (select_messages env Read_history cid w2)))))"
        by (simp_all add: chat_turn_def case_prod_beta internal_error_def w1_def w2_def)
      show ?thesis by (rule history_failed[OF res w1_def save w2_def True r])
    next
      case False
      note hist = this
      have turn: "chat_turn env uid msg sid w =
          (case fst (generateAIResponse env history msg mems w5) of
             Inl e \<Rightarrow> internal_error (snd (generateAIResponse env history msg mems w5))
           | Inr aiResponse \<Rightarrow>
               (Response 200 (Reply_body aiResponse cid),
                summarizeAndStoreFacts env uid msg aiResponse
                  (snd (insert_message env Save_ai_message cid Sender_ai aiResponse
                     (snd (generateAIResponse env history msg mems w5))))))"
        unfolding w1_def w2_def data_def mems_def w4_def w5_def history_def
        using chat_turn_resolved[OF res save hist, of msg]
        by (simp only: Let_def)
      show ?thesis
      proof (cases "unset (GROQ_API_KEY env)")
        case True
        then have "chat_turn env uid msg sid w = internal_error w5"
          unfolding turn by (simp add: generate_unset)
        with assms have r: "resp = Response 500 (Error_body ''Internal Server Error'')"
          "w' = snd (internal_error w5)"
          by (simp_all add: internal_error_def)
        show ?thesis
          by (rule key_unset[OF res w1_def save w2_def hist data_def w4_def w5_def True r])
      next
        case False
        then obtain a where a: "fst (generateAIResponse env history msg mems w5) = Inr a"
          using generate_reply(2) by blast
        define w6 where "w6 = snd (generateAIResponse env history msg mems w5)"
        define w7 where "w7 = snd (insert_message env Save_ai_message cid Sender_ai a w6)"
        have "chat_turn env uid msg sid w =
            (Response 200 (Reply_body a cid), summarizeAndStoreFacts env uid msg a w7)"
          unfolding turn w6_def w7_def by (simp only: a sum.case)
        with assms have r: "resp = Response 200 (Reply_body a cid)"
          "w' = summarizeAndStoreFacts env uid msg a w7"
          by simp_all
        show ?thesis
          by (rule replied[OF res w1_def save w2_def hist data_def w4_def w5_def False
                history_def mems_def a w6_def w7_def r])
      qed
    qed
  qed
  qed
qed

text \<open>The ways a request to the chat route can end.\<close>

lemma POST_body:
  assumes "\<not> (unset (NEXT_PUBLIC_SUPABASE_URL env) \<or> unset (NEXT_PUBLIC_SUPABASE_PUBLISHABLE_KEY env)
       \<or> unset (GROQ_API_KEY env))"
      and "b \<noteq> JNull" "b \<noteq> JUndefined"
  shows "POST env (Some b) w =
        (case required_string (field ''userId'' b) of
           None \<Rightarrow> (Response 400 (Error_body ''User ID (Name) is required.''), w)
         | Some uid \<Rightarrow>
             (if \<not> truthy (field ''message'' b) \<and> truthy (field ''name'' b)
              then create_named_conversation env uid (field ''name'' b) w
              else (case required_string (field ''message'' b) of
                      None \<Rightarrow> (Response 400 (Error_body ''Message content is required.''), w)
                    | Some msg \<Rightarrow> chat_turn env uid msg (field ''sessionId'' b) w)))"
  using assms by (cases b) (auto simp add: POST_def Let_def simp del: field.simps)

lemma POST_cases
  [consumes 1, case_names misconfigured bad_body no_user named no_message turn]:
  assumes "POST env req w = (resp, w')"
  obtains
    (misconfigured)
      "unset (NEXT_PUBLIC_SUPABASE_URL env) \<or> unset (NEXT_PUBLIC_SUPABASE_PUBLISHABLE_KEY env)
       \<or> unset (GROQ_API_KEY env)"
      "resp = Response 500 (Error_body ''Missing environment variables.'')"
      "w' = w"
  | (bad_body)
      "req = None \<or> req = Some JNull \<or> req = Some JUndefined"
      "resp = Response 500 (Error_body ''Internal Server Error'')"
      "w' = snd (internal_error w)"
  | (no_user) b where
      "req = Some b"
      "required_string (field ''userId'' b) = None"
      "resp = Response 400 (Error_body ''User ID (Name) is required.'')"
      "w' = w"
  | (named) b uid where
      "req = Some b"
      "\<not> unset (GROQ_API_KEY env)"
      "required_string (field ''userId'' b) = Some uid"
      "\<not> truthy (field ''message'' b)" "truthy (field ''name'' b)"
      "resp = fst (create_named_conversation env uid (field ''name'' b) w)"
      "w' = snd (create_named_conversation env uid (field ''name'' b) w)"
  | (no_message) b uid where
      "req = Some b"
      "required_string (field ''userId'' b) = Some uid"
      "required_string (field ''message'' b) = None"
      "resp = Response 400 (Error_body ''Message content is required.'')"
      "w' = w"
  | (turn) b uid msg where
      "req = Some b"
      "\<not> unset (GROQ_API_KEY env)"
      "required_string (field ''userId'' b) = Some uid"
      "required_string (field ''message'' b) = Some msg"
      "chat_turn env uid msg (field ''sessionId'' b) w = (resp, w')"
proof (cases "unset (NEXT_PUBLIC_SUPABASE_URL env) \<or> unset (NEXT_PUBLIC_SUPABASE_PUBLISHABLE_KEY env)
       \<or> unset (GROQ_API_KEY env)")
  case True
  with assms have r: "resp = Response 500 (Error_body ''Missing environment variables.'')" "w' = w"
    by (simp_all add: POST_def)
  show ?thesis by (rule misconfigured[OF True r])
next
  case False
  note conf = this
  show ?thesis
  proof (cases "req = None \<or> req = Some JNull \<or> req = Some JUndefined")
    case True
    with assms conf have r: "resp = Response 500 (Error_body ''Internal Server Error'')"
      "w' = snd (internal_error w)"
      by (auto simp: POST_def internal_error_def)
    show ?thesis by (rule bad_body[OF True r])
  next
    case False
    then obtain b where b: "req = Some b" "b \<noteq> JNull" "b \<noteq> JUndefined"
      by auto
    have post: "POST env req w =
        (case required_string (field ''userId'' b) of
           None \<Rightarrow> (Response 400 (Error_body ''User ID (Name) is required.''), w)
         | Some uid \<Rightarrow>
             (if \<not> truthy (field ''message'' b) \<and> truthy (field ''name'' b)
              then create_named_conversation env uid (field ''name'' b) w
              else (case required_string (field ''message'' b) of
                      None \<Rightarrow> (Response 400 (Error_body ''Message content is required.''), w)
                    | Some msg \<Rightarrow> chat_turn env uid msg (field ''sessionId'' b) w)))"
      unfolding b(1) using conf b(2,3) by (rule POST_body)
    show ?thesis
    proof (cases "required_string (field ''userId'' b)")
      case None
      with assms post have r: "resp = Response 400 (Error_body ''User ID (Name) is required.'')"
        "w' = w" by simp_all
      show ?thesis by (rule no_user[OF b(1) None r])
    next
      case (Some uid)
      note uid = this
      show ?thesis
      proof (cases "\<not> truthy (field ''message'' b) \<and> truthy (field ''name'' b)")
        case True
        with assms post uid have "create_named_conversation env uid (field ''name'' b) w = (resp, w')"
          by simp
        then have r: "resp = fst (create_named_conversation env uid (field ''name'' b) w)"
          "w' = snd (create_named_conversation env uid (field ''name'' b) w)"
          by simp_all
        from True have t: "\<not> truthy (field ''message'' b)" "truthy (field ''name'' b)"
          by simp_all
        from conf have k: "\<not> unset (GROQ_API_KEY env)" by simp
        show ?thesis by (rule named[OF b(1) k uid t r])
      next
        case False
        note notnamed = this
        show ?thesis
        proof (cases "required_string (field ''message'' b)")
          case None
          with assms post uid notnamed have r:
            "resp = Response 400 (Error_body ''Message content is required.'')" "w' = w"
            by simp_all
          show ?thesis by (rule no_message[OF b(1) uid None r])
        next
          case (Some msg)
          with assms post uid notnamed have r:
            "chat_turn env uid msg (field ''sessionId'' b) w = (resp, w')"
            by simp
          from conf have k: "\<not> unset (GROQ_API_KEY env)" by simp
          show ?thesis by (rule turn[OF b(1) k uid Some r])
        qed
      qed
    qed
  qed
qed

lemma trim_Nil [simp]: "trim [] = []"
  by (simp add: trim_def)

lemma required_string_Some:
  "required_string v = Some s \<longleftrightarrow> v = JStr s \<and> trim s \<noteq> []"
  by (cases v) auto

text \<open>Unfolding a run on a sample input.\<close>

lemmas run_defs =
  POST_def chat_turn_def resolve_conversation_def create_named_conversation_def auto_title_def
  generateAIResponse_def generateChatTitle_def summarizeAndStoreFacts_def store_new_facts_def
  getMemories_def insert_conversation_def select_own_conversation_def insert_message_def
  select_messages_def select_memories_def update_conversation_name_def insert_memories_def
  internal_error_def text_value_def filter_value_def emit_def start_def unset_def trim_def is_space_def
  messages_of_def memories_of_def Let_def

lemmas sample_defs =
  env_ok_def db_sample_def req_on_c1_def req_no_session_def sample_groq_def sample_parse_def
  req_to_c2_def req_to_c2_array_def req_on_c1_array_def req_named_def req_no_user_def req_no_message_def
  env_facts_number_def env_facts_unparseable_def env_facts_insert_fails_def
  env_llm_raises_def env_llm_empty_def env_ai_insert_fails_def
  env_llm_raises_ai_insert_fails_def env_memories_down_def env_history_down_def

section \<open>The memory accessor\<close>

text \<open>
  C8. For every user identifier, \<open>getMemories\<close> returns the contents of that user's memory
  rows, oldest first: when the store answers, the result lists the contents of rows that
  are sorted by creation time and are, as a multiset, exactly the user's rows (no limit,
  no deduplication). When the store fails it raises nothing: it logs the error and
  returns the empty list. It never changes the database.
\<close>

theorem getMemories_contract:
  "(\<not> storage_fails env Read_memories \<longrightarrow>
      (\<exists>rows. fst (getMemories env userId w) = map mem_content rows
           \<and> sorted (map mem_created_at rows)
           \<and> mset rows = mset (memories_of userId (store w))))
   \<and> (storage_fails env Read_memories \<longrightarrow>
        fst (getMemories env userId w) = []
      \<and> trace (snd (getMemories env userId w)) =
          trace w @ [Storage Read_memories Failed, Console_error ''Error fetching memories:''])
   \<and> store (snd (getMemories env userId w)) = store w"
proof (intro conjI impI)
  assume ok: "\<not> storage_fails env Read_memories"
  let ?rows = "sort_key mem_created_at (memories_of userId (store w))"
  have "fst (getMemories env userId w) = map mem_content ?rows"
    using ok by (simp add: getMemories_simps)
  moreover have "sorted (map mem_created_at ?rows)"
    by (rule sorted_sort_key)
  moreover have "mset ?rows = mset (memories_of userId (store w))"
    by simp
  ultimately show "\<exists>rows. fst (getMemories env userId w) = map mem_content rows
      \<and> sorted (map mem_created_at rows) \<and> mset rows = mset (memories_of userId (store w))"
    by blast
qed (simp_all add: getMemories_simps)

theorem getMemories_contract_witness:
  "\<not> storage_fails env_ok Read_memories
   \<and> fst (getMemories env_ok ''alice'' (start db_sample)) =
       [''User bought a cat keyboard'', ''User lives in Mumbai'', ''User lives in Mumbai'']
   \<and> storage_fails env_memories_down Read_memories
   \<and> fst (getMemories env_memories_down ''alice'' (start db_sample)) = []"
  using getMemories_contract [of env_ok "''alice''" "start db_sample"]
    getMemories_contract [of env_memories_down "''alice''" "start db_sample"]
  by (simp add: env_ok_def env_memories_down_def db_sample_def memories_of_def)

section \<open>The reply is returned whether or not it was stored\<close>

text \<open>
  C10. If the insert of the AI reply fails at the store, the chat route still answers 200
  with the generated reply and the resolved session identifier: the result of that insert
  is never inspected. The turn then leaves exactly one new message, the user's; no
  message of the assistant is stored.
\<close>

theorem unchecked_ai_insert:
  assumes "POST env req (start d) = (resp, w')"
      and "storage_results Save_ai_message (trace w') = [Failed]"
  shows "\<exists>reply cid b msg r.
           req = Some b \<and> field ''message'' b = JStr msg
         \<and> resp = Response 200 (Reply_body reply cid)
         \<and> completions Generate_reply (trace w') = [(r, groq env r)]
         \<and> (\<forall>c. groq env r = Returned (Some c) \<and> c \<noteq> [] \<longrightarrow> reply = c)
         \<and> messages_table (store w') =
             messages_table d @
               [\<lparr>msg_conversation_id = cid, msg_sender = Sender_user, msg_content = msg,
                 msg_created_at = now env Save_user_message\<rparr>]"
  using assms(1)
proof (cases rule: POST_cases)
  case (turn b uid msg)
  from turn(4) have msg: "field ''message'' b = JStr msg"
    by (simp add: required_string_Some)
  from turn(5) show ?thesis
  proof (cases rule: chat_turn_cases)
    case (replied cid w1 w2 w4 w5 w6 w7 data history mems aiResponse)
    have fails: "storage_fails env Save_ai_message"
      using assms(2) replied by (simp split: if_splits)
    have gen: "completions Generate_reply (trace w') =
        [(reply_request history msg mems, groq env (reply_request history msg mems))]"
      using replied generate_reply(1)[OF replied(9), of history msg mems w5]
      by (simp split: if_splits)
    have reply: "\<forall>c. groq env (reply_request history msg mems) = Returned (Some c) \<and> c \<noteq> []
        \<longrightarrow> aiResponse = c"
      using replied(12) generate_reply(2)[OF replied(9), of history msg mems w5]
      by auto
    have "messages_table (store w') =
        messages_table d @
          [\<lparr>msg_conversation_id = cid, msg_sender = Sender_user, msg_content = msg,
            msg_created_at = now env Save_user_message\<rparr>]"
      using replied fails by (simp split: if_splits)
    with turn(1) msg replied(15) gen reply show ?thesis
      by blast
  qed (use assms(2) in \<open>simp_all split: if_splits\<close>)
qed (use assms(2) in simp_all)


theorem unchecked_ai_insert_witness:
  "storage_results Save_ai_message
     (trace (snd (POST env_ai_insert_fails (Some req_on_c1) (start db_sample)))) = [Failed]
   \<and> fst (POST env_ai_insert_fails (Some req_on_c1) (start db_sample)) =
       Response 200 (Reply_body ''You can return any item within 30 days.'' ''c1'')
   \<and> messages_table (store (snd (POST env_ai_insert_fails (Some req_on_c1) (start db_sample)))) =
       messages_table db_sample @
         [\<lparr>msg_conversation_id = ''c1'', msg_sender = Sender_user,
           msg_content = ''What is your return policy?'', msg_created_at = 20\<rparr>]"
proof -
  let ?run = "POST env_ai_insert_fails (Some req_on_c1) (start db_sample)"
  have run: "?run = (fst ?run, snd ?run)"
    by simp
  have failed: "storage_results Save_ai_message (trace (snd ?run)) = [Failed]"
    by (simp add: run_defs sample_defs)
  have resp: "fst ?run = Response 200 (Reply_body ''You can return any item within 30 days.'' ''c1'')"
    by (simp add: run_defs sample_defs)
  from unchecked_ai_insert [OF run failed] obtain reply cid b msg where
    b: "Some req_on_c1 = Some b" "field ''message'' b = JStr msg"
    and r: "fst ?run = Response 200 (Reply_body reply cid)"
    and m: "messages_table (store (snd ?run)) =
             messages_table db_sample @
               [\<lparr>msg_conversation_id = cid, msg_sender = Sender_user, msg_content = msg,
                 msg_created_at = now env_ai_insert_fails Save_user_message\<rparr>]"
    by blast
  from r resp have "cid = ''c1''" by simp
  moreover from b have "msg = ''What is your return policy?''"
    by (auto simp: req_on_c1_def)
  moreover have "now env_ai_insert_fails Save_user_message = 20"
    by (simp add: sample_defs)
  ultimately have "messages_table (store (snd ?run)) =
       messages_table db_sample @
         [\<lparr>msg_conversation_id = ''c1'', msg_sender = Sender_user,
           msg_content = ''What is your return policy?'', msg_created_at = 20\<rparr>]"
    using m by simp
  with failed resp show ?thesis by (intro conjI)
qed

section \<open>A failed completion call\<close>

text \<open>
  C1, as the specification states it, fails on the code. There is no single apology: a
  completion call that raises and one that returns no content give two different fixed
  strings. And the insert of the reply is not checked: with a failing completion call and
  a failing insert the turn answers 200 with the apology and stores no message of the
  assistant.
\<close>

theorem apology_counterexample:
  "fst (POST env_llm_raises (Some req_on_c1) (start db_sample)) =
     Response 200 (Reply_body ''I apologize, but I am currently experiencing technical difficulties. Please try again in a moment.'' ''c1'')
   \<and> fst (POST env_llm_empty (Some req_on_c1) (start db_sample)) =
     Response 200 (Reply_body ''I apologize, but I could not generate a response at this time. Please try again.'' ''c1'')
   \<and> fst (POST env_llm_raises (Some req_on_c1) (start db_sample)) \<noteq>
       fst (POST env_llm_empty (Some req_on_c1) (start db_sample))
   \<and> map snd (completions Generate_reply
        (trace (snd (POST env_llm_raises_ai_insert_fails (Some req_on_c1) (start db_sample))))) =
       [Raises]
   \<and> fst (POST env_llm_raises_ai_insert_fails (Some req_on_c1) (start db_sample)) =
     Response 200 (Reply_body ''I apologize, but I am currently experiencing technical difficulties. Please try again in a moment.'' ''c1'')
   \<and> messages_table
         (store (snd (POST env_llm_raises_ai_insert_fails (Some req_on_c1) (start db_sample)))) =
       messages_table db_sample @
         [\<lparr>msg_conversation_id = ''c1'', msg_sender = Sender_user,
           msg_content = ''What is your return policy?'', msg_created_at = 20\<rparr>]"
proof -
  have a: "fst (POST env_llm_raises (Some req_on_c1) (start db_sample)) =
     Response 200 (Reply_body ''I apologize, but I am currently experiencing technical difficulties. Please try again in a moment.'' ''c1'')"
    by (simp add: run_defs sample_defs)
  have b: "fst (POST env_llm_empty (Some req_on_c1) (start db_sample)) =
     Response 200 (Reply_body ''I apologize, but I could not generate a response at this time. Please try again.'' ''c1'')"
    by (simp add: run_defs sample_defs)
  have c: "fst (POST env_llm_raises (Some req_on_c1) (start db_sample)) \<noteq>
       fst (POST env_llm_empty (Some req_on_c1) (start db_sample))"
    unfolding a b by simp
  have d: "map snd (completions Generate_reply
        (trace (snd (POST env_llm_raises_ai_insert_fails (Some req_on_c1) (start db_sample))))) =
       [Raises]"
    by (simp add: run_defs sample_defs)
  have e: "fst (POST env_llm_raises_ai_insert_fails (Some req_on_c1) (start db_sample)) =
     Response 200 (Reply_body ''I apologize, but I am currently experiencing technical difficulties. Please try again in a moment.'' ''c1'')"
    by (simp add: run_defs sample_defs)
  have f: "messages_table
         (store (snd (POST env_llm_raises_ai_insert_fails (Some req_on_c1) (start db_sample)))) =
       messages_table db_sample @
         [\<lparr>msg_conversation_id = ''c1'', msg_sender = Sender_user,
           msg_content = ''What is your return policy?'', msg_created_at = 20\<rparr>]"
    by (simp add: run_defs sample_defs)
  from a b c d e f show ?thesis by (intro conjI)
qed

text \<open>
  C1, amended. In every chat turn whose completion call for the reply fails, the reply
  generator raises nothing and returns a fixed apology: one string when the call raises,
  another when it returns no content or empty content. The turn answers 200 with that
  apology and, when the store accepts the insert of the reply, leaves exactly two new
  messages: the user's, and one of sender \<open>ai\<close> whose content is the apology returned.
\<close>

theorem completion_failure_apology:
  assumes "POST env req (start d) = (resp, w')"
      and "out \<in> set (map snd (completions Generate_reply (trace w')))"
      and "out = Raises \<or> out = Returned None \<or> out = Returned (Some [])"
  shows "\<exists>cid b msg apology.
           req = Some b \<and> field ''message'' b = JStr msg
         \<and> apology =
             (if out = Raises
              then ''I apologize, but I am currently experiencing technical difficulties. Please try again in a moment.''
              else ''I apologize, but I could not generate a response at this time. Please try again.'')
         \<and> resp = Response 200 (Reply_body apology cid)
         \<and> (\<not> storage_fails env Save_ai_message \<longrightarrow>
               messages_table (store w') =
                 messages_table d @
                   [\<lparr>msg_conversation_id = cid, msg_sender = Sender_user, msg_content = msg,
                     msg_created_at = now env Save_user_message\<rparr>,
                    \<lparr>msg_conversation_id = cid, msg_sender = Sender_ai, msg_content = apology,
                     msg_created_at = now env Save_ai_message\<rparr>])"
  using assms(1)
proof (cases rule: POST_cases)
  case (turn b uid msg)
  from turn(4) have msg: "field ''message'' b = JStr msg"
    by (simp add: required_string_Some)
  from turn(5) show ?thesis
  proof (cases rule: chat_turn_cases)
    case (replied cid w1 w2 w4 w5 w6 w7 data history mems aiResponse)
    have gen: "completions Generate_reply (trace w') =
        [(reply_request history msg mems, groq env (reply_request history msg mems))]"
      using replied generate_reply(1)[OF replied(9), of history msg mems w5]
      by (simp split: if_splits)
    with assms(2) have out: "groq env (reply_request history msg mems) = out"
      by simp
    have reply: "aiResponse =
        (if out = Raises
         then ''I apologize, but I am currently experiencing technical difficulties. Please try again in a moment.''
         else ''I apologize, but I could not generate a response at this time. Please try again.'')"
      using replied(12) generate_reply(2)[OF replied(9), of history msg mems w5] out assms(3)
      by auto
    have "\<not> storage_fails env Save_ai_message \<longrightarrow>
        messages_table (store w') =
          messages_table d @
            [\<lparr>msg_conversation_id = cid, msg_sender = Sender_user, msg_content = msg,
              msg_created_at = now env Save_user_message\<rparr>,
             \<lparr>msg_conversation_id = cid, msg_sender = Sender_ai, msg_content = aiResponse,
              msg_created_at = now env Save_ai_message\<rparr>]"
      using replied by (simp split: if_splits)
    with turn(1) msg replied(15) reply show ?thesis
      by blast
  qed (use assms(2) in \<open>simp_all split: if_splits\<close>)
qed (use assms(2) in simp_all)

theorem completion_failure_apology_witness:
  "Raises \<in> set (map snd (completions Generate_reply
       (trace (snd (POST env_llm_raises (Some req_on_c1) (start db_sample))))))
   \<and> \<not> storage_fails env_llm_raises Save_ai_message
   \<and> fst (POST env_llm_raises (Some req_on_c1) (start db_sample)) =
       Response 200 (Reply_body ''I apologize, but I am currently experiencing technical difficulties. Please try again in a moment.'' ''c1'')
   \<and> messages_table (store (snd (POST env_llm_raises (Some req_on_c1) (start db_sample)))) =
       messages_table db_sample @
         [\<lparr>msg_conversation_id = ''c1'', msg_sender = Sender_user,
           msg_content = ''What is your return policy?'', msg_created_at = 20\<rparr>,
          \<lparr>msg_conversation_id = ''c1'', msg_sender = Sender_ai,
           msg_content = ''I apologize, but I am currently experiencing technical difficulties. Please try again in a moment.'',
           msg_created_at = 21\<rparr>]"
proof -
  let ?run = "POST env_llm_raises (Some req_on_c1) (start db_sample)"
  have run: "?run = (fst ?run, snd ?run)"
    by simp
  have called: "Raises \<in> set (map snd (completions Generate_reply (trace (snd ?run))))"
    by (simp add: run_defs sample_defs)
  have stores: "\<not> storage_fails env_llm_raises Save_ai_message"
    by (simp add: sample_defs)
  from completion_failure_apology [OF run called] stores obtain cid b msg where
    b: "Some req_on_c1 = Some b" "field ''message'' b = JStr msg"
    and r: "fst ?run = Response 200 (Reply_body ''I apologize, but I am currently experiencing technical difficulties. Please try again in a moment.'' cid)"
    and m: "messages_table (store (snd ?run)) =
             messages_table db_sample @
               [\<lparr>msg_conversation_id = cid, msg_sender = Sender_user, msg_content = msg,
                 msg_created_at = now env_llm_raises Save_user_message\<rparr>,
                \<lparr>msg_conversation_id = cid, msg_sender = Sender_ai,
                 msg_content = ''I apologize, but I am currently experiencing technical difficulties. Please try again in a moment.'',
                 msg_created_at = now env_llm_raises Save_ai_message\<rparr>]"
    by auto
  have resp: "fst ?run = Response 200 (Reply_body ''I apologize, but I am currently experiencing technical difficulties. Please try again in a moment.'' ''c1'')"
    by (simp add: run_defs sample_defs)
  with r have "cid = ''c1''" by simp
  moreover from b have "msg = ''What is your return policy?''"
    by (auto simp: req_on_c1_def)
  moreover have "now env_llm_raises Save_user_message = 20" "now env_llm_raises Save_ai_message = 21"
    by (simp_all add: sample_defs)
  ultimately have "messages_table (store (snd ?run)) =
       messages_table db_sample @
         [\<lparr>msg_conversation_id = ''c1'', msg_sender = Sender_user,
           msg_content = ''What is your return policy?'', msg_created_at = 20\<rparr>,
          \<lparr>msg_conversation_id = ''c1'', msg_sender = Sender_ai,
           msg_content = ''I apologize, but I am currently experiencing technical difficulties. Please try again in a moment.'',
           msg_created_at = 21\<rparr>]"
    using m by simp
  with called stores resp show ?thesis by (intro conjI)
qed

section \<open>A conversation of another user\<close>



text \<open>
  An identifier that is not a string and that the ownership query renders as the
  identifier of a conversation of the user passes the check; the store then rejects the
  user's message, and the request is answered 500 with nothing stored.
\<close>

lemma own_conversation_wrapped_id:
  "filter_value env_ok (field ''sessionId'' req_on_c1_array) = ''c1''
   \<and> POST env_ok (Some req_on_c1_array) (start db_sample) =
       (Response 500 (Error_body ''Internal Server Error''),
        \<lparr>store = db_sample,
         trace = [Storage Verify_ownership (Row_id ''c1''), Storage Save_user_message Failed,
                  Console_error ''Chat API error:'']\<rparr>)"
  by (simp add: run_defs sample_defs)

section \<open>Validation of the request\<close>

text \<open>
  C6. With the environment configured and a body that can be destructured: a request
  whose user identifier is not a string with something other than white space in it is
  answered 400. A request whose message is missing (falsy) and whose name is present
  (truthy) creates a conversation: it stores no message, sends nothing to the completion
  service and, when the store accepts the insert, answers 200 with the new identifier
  alone and adds one conversation row of that user with that name. Any other request
  whose message is not a string with something other than white space in it is answered
  400. A 400 leaves the database as it was.
\<close>

theorem request_validation:
  assumes "\<not> unset (NEXT_PUBLIC_SUPABASE_URL env)"
      and "\<not> unset (NEXT_PUBLIC_SUPABASE_PUBLISHABLE_KEY env)"
      and "\<not> unset (GROQ_API_KEY env)"
      and "b \<noteq> JNull" "b \<noteq> JUndefined"
  shows "(\<not> (\<exists>s. field ''userId'' b = JStr s \<and> trim s \<noteq> []) \<longrightarrow>
            POST env (Some b) (start d) =
              (Response 400 (Error_body ''User ID (Name) is required.''), start d))
       \<and> ((\<exists>s. field ''userId'' b = JStr s \<and> trim s \<noteq> [])
            \<and> \<not> (\<not> truthy (field ''message'' b) \<and> truthy (field ''name'' b))
            \<and> \<not> (\<exists>s. field ''message'' b = JStr s \<and> trim s \<noteq> []) \<longrightarrow>
            POST env (Some b) (start d) =
              (Response 400 (Error_body ''Message content is required.''), start d))
       \<and> (\<forall>uid. field ''userId'' b = JStr uid \<and> trim uid \<noteq> []
            \<and> \<not> truthy (field ''message'' b) \<and> truthy (field ''name'' b) \<longrightarrow>
              messages_table (store (snd (POST env (Some b) (start d)))) = messages_table d
            \<and> memories_table (store (snd (POST env (Some b) (start d)))) = memories_table d
            \<and> (\<forall>site. completions site (trace (snd (POST env (Some b) (start d)))) = [])
            \<and> (\<not> storage_fails env Create_named_conversation
                \<and> text_value env (field ''name'' b) \<noteq> None \<longrightarrow>
                  fst (POST env (Some b) (start d)) =
                    Response 200 (Session_body (generated_id env))
                \<and> conversations_table (store (snd (POST env (Some b) (start d)))) =
                    conversations_table d @
                      [\<lparr>conv_id = generated_id env, conv_user_id = uid,
                        conv_name = text_value env (field ''name'' b),
                        conv_created_at = now env Create_named_conversation\<rparr>]))"
proof -
  have none: "required_string v = None \<longleftrightarrow> \<not> (\<exists>s. v = JStr s \<and> trim s \<noteq> [])" for v
    by (cases v) auto
  have post: "POST env (Some b) (start d) =
        (case required_string (field ''userId'' b) of
           None \<Rightarrow> (Response 400 (Error_body ''User ID (Name) is required.''), start d)
         | Some uid \<Rightarrow>
             (if \<not> truthy (field ''message'' b) \<and> truthy (field ''name'' b)
              then create_named_conversation env uid (field ''name'' b) (start d)
              else (case required_string (field ''message'' b) of
                      None \<Rightarrow> (Response 400 (Error_body ''Message content is required.''), start d)
                    | Some msg \<Rightarrow> chat_turn env uid msg (field ''sessionId'' b) (start d))))"
    using assms by (intro POST_body) simp_all
  have a: "POST env (Some b) (start d) =
      (Response 400 (Error_body ''User ID (Name) is required.''), start d)"
    if "\<not> (\<exists>s. field ''userId'' b = JStr s \<and> trim s \<noteq> [])"
    using that none[of "field ''userId'' b"] unfolding post by simp
  have b: "POST env (Some b) (start d) =
      (Response 400 (Error_body ''Message content is required.''), start d)"
    if "\<exists>s. field ''userId'' b = JStr s \<and> trim s \<noteq> []"
      "\<not> (\<not> truthy (field ''message'' b) \<and> truthy (field ''name'' b))"
      "\<not> (\<exists>s. field ''message'' b = JStr s \<and> trim s \<noteq> [])"
  proof -
    from that(1) obtain uid where "required_string (field ''userId'' b) = Some uid"
      by (auto simp: required_string_Some)
    moreover from that(3) have "required_string (field ''message'' b) = None"
      using none[of "field ''message'' b"] by simp
    ultimately show ?thesis
      using that(2) unfolding post by auto
  qed
  have c: "messages_table (store (snd (POST env (Some b) (start d)))) = messages_table d
      \<and> memories_table (store (snd (POST env (Some b) (start d)))) = memories_table d
      \<and> (\<forall>site. completions site (trace (snd (POST env (Some b) (start d)))) = [])
      \<and> (\<not> storage_fails env Create_named_conversation
          \<and> text_value env (field ''name'' b) \<noteq> None \<longrightarrow>
            fst (POST env (Some b) (start d)) =
              Response 200 (Session_body (generated_id env))
          \<and> conversations_table (store (snd (POST env (Some b) (start d)))) =
              conversations_table d @
                [\<lparr>conv_id = generated_id env, conv_user_id = uid,
                  conv_name = text_value env (field ''name'' b),
                  conv_created_at = now env Create_named_conversation\<rparr>])"
    if "field ''userId'' b = JStr uid" "trim uid \<noteq> []"
      "\<not> truthy (field ''message'' b)" "truthy (field ''name'' b)" for uid
  proof -
    from that(1,2) have "required_string (field ''userId'' b) = Some uid"
      by auto
    with that(3,4) have "POST env (Some b) (start d) =
        create_named_conversation env uid (field ''name'' b) (start d)"
      unfolding post by simp
    then show ?thesis
      by (simp add: create_named_result)
  qed
  from a b c show ?thesis by blast
qed

theorem request_validation_witness:
  "POST env_ok (Some req_no_user) (start db_sample) =
     (Response 400 (Error_body ''User ID (Name) is required.''), start db_sample)
   \<and> POST env_ok (Some req_no_message) (start db_sample) =
     (Response 400 (Error_body ''Message content is required.''), start db_sample)
   \<and> field ''userId'' req_named = JStr ''alice''
   \<and> \<not> truthy (field ''message'' req_named) \<and> truthy (field ''name'' req_named)
   \<and> fst (POST env_ok (Some req_named) (start db_sample)) = Response 200 (Session_body ''c3'')
   \<and> messages_table (store (snd (POST env_ok (Some req_named) (start db_sample)))) =
       messages_table db_sample
   \<and> conversations_table (store (snd (POST env_ok (Some req_named) (start db_sample)))) =
       conversations_table db_sample @
         [\<lparr>conv_id = ''c3'', conv_user_id = ''alice'', conv_name = Some ''Support'',
           conv_created_at = 20\<rparr>]"
proof -
  have conf: "\<not> unset (NEXT_PUBLIC_SUPABASE_URL env_ok)"
    "\<not> unset (NEXT_PUBLIC_SUPABASE_PUBLISHABLE_KEY env_ok)"
    "\<not> unset (GROQ_API_KEY env_ok)"
    by (simp_all add: env_ok_def unset_def)
  have u: "POST env_ok (Some req_no_user) (start db_sample) =
     (Response 400 (Error_body ''User ID (Name) is required.''), start db_sample)"
    using request_validation [OF conf, of req_no_user db_sample]
    by (simp add: req_no_user_def)
  have m: "POST env_ok (Some req_no_message) (start db_sample) =
     (Response 400 (Error_body ''Message content is required.''), start db_sample)"
    using request_validation [OF conf, of req_no_message db_sample]
    by (simp add: req_no_message_def trim_def is_space_def)
  have f: "field ''userId'' req_named = JStr ''alice''"
    "\<not> truthy (field ''message'' req_named)" "truthy (field ''name'' req_named)"
    by (simp_all add: req_named_def)
  have n: "fst (POST env_ok (Some req_named) (start db_sample)) = Response 200 (Session_body ''c3'')
   \<and> messages_table (store (snd (POST env_ok (Some req_named) (start db_sample)))) =
       messages_table db_sample
   \<and> conversations_table (store (snd (POST env_ok (Some req_named) (start db_sample)))) =
       conversations_table db_sample @
         [\<lparr>conv_id = ''c3'', conv_user_id = ''alice'', conv_name = Some ''Support'',
           conv_created_at = 20\<rparr>]"
    using request_validation [OF conf, of req_named db_sample]
    by (simp add: req_named_def env_ok_def text_value_def trim_def is_space_def)
  from u m f n show ?thesis by simp
qed

lemma GET_history_simps:
  assumes "\<not> unset (NEXT_PUBLIC_SUPABASE_URL env)"
      and "\<not> unset (NEXT_PUBLIC_SUPABASE_PUBLISHABLE_KEY env)"
      and "sid \<noteq> []"
  shows "fst (GET_history env (Some sid) w) =
           (if storage_fails env History_route_read
            then Response 500 (Error_body ''Failed to retrieve message history.'')
            else Response 200
                   (Messages_body
                      (map (\<lambda>m. (msg_sender m, msg_content m, msg_created_at m))
                         (sort_key msg_created_at (messages_of sid (store w))))))"
    and "store (snd (GET_history env (Some sid) w)) = store w"
  using assms by (simp_all add: GET_history_def unset_def case_prod_beta)

lemma GET_routes_store [simp]:
  "store (snd (GET_history env sessionId w)) = store w"
  "store (snd (GET_sessions env userId w)) = store w"
  by (simp_all add: GET_history_def GET_sessions_def select_conversations_def Let_def
        case_prod_beta)

section \<open>The history read\<close>

text \<open>
  C5. For every conversation identifier, the history route answers with the messages of
  that conversation, oldest first: rows sorted by creation time that are, as a multiset,
  exactly the conversation's rows (no limit), hence the empty list for a conversation
  with no message. When the store fails the read, the route answers 500. It never
  changes the database. The read inside a chat turn is the same query: a failure there
  ends the turn with a 500, and the rows it returns are sorted by creation time and are
  all the messages of the conversation, the one just stored included.
\<close>

theorem history_read:
  assumes "\<not> unset (NEXT_PUBLIC_SUPABASE_URL env)"
      and "\<not> unset (NEXT_PUBLIC_SUPABASE_PUBLISHABLE_KEY env)"
      and "sid \<noteq> []"
  shows "(\<not> storage_fails env History_route_read \<longrightarrow>
           (\<exists>rows. fst (GET_history env (Some sid) w) =
                     Response 200
                       (Messages_body
                          (map (\<lambda>m. (msg_sender m, msg_content m, msg_created_at m)) rows))
                \<and> sorted (map msg_created_at rows)
                \<and> mset rows = mset (messages_of sid (store w))))
       \<and> (\<not> storage_fails env History_route_read \<and> messages_of sid (store w) = [] \<longrightarrow>
            fst (GET_history env (Some sid) w) = Response 200 (Messages_body []))
       \<and> (storage_fails env History_route_read \<longrightarrow>
            fst (GET_history env (Some sid) w) =
              Response 500 (Error_body ''Failed to retrieve message history.''))
       \<and> store (snd (GET_history env (Some sid) w)) = store w
       \<and> (\<forall>req d resp w'. POST env req (start d) = (resp, w') \<longrightarrow>
            (Failed \<in> set (storage_results Read_history (trace w')) \<longrightarrow>
               resp = Response 500 (Error_body ''Internal Server Error''))
          \<and> (\<forall>h. Message_rows h \<in> set (storage_results Read_history (trace w')) \<longrightarrow>
                sorted (map msg_created_at h)
              \<and> (\<exists>cid b msg. req = Some b \<and> field ''message'' b = JStr msg
                    \<and> mset h =
                        add_mset \<lparr>msg_conversation_id = cid, msg_sender = Sender_user,
                                   msg_content = msg,
                                   msg_created_at = now env Save_user_message\<rparr>
                          (mset (messages_of cid d)))))"
proof (intro conjI impI allI)
  assume ok: "\<not> storage_fails env History_route_read"
  let ?rows = "sort_key msg_created_at (messages_of sid (store w))"
  have "fst (GET_history env (Some sid) w) =
      Response 200 (Messages_body (map (\<lambda>m. (msg_sender m, msg_content m, msg_created_at m)) ?rows))"
    using ok by (simp add: GET_history_simps(1)[OF assms])
  moreover have "sorted (map msg_created_at ?rows)"
    by (rule sorted_sort_key)
  moreover have "mset ?rows = mset (messages_of sid (store w))"
    by simp
  ultimately show "\<exists>rows. fst (GET_history env (Some sid) w) =
        Response 200 (Messages_body (map (\<lambda>m. (msg_sender m, msg_content m, msg_created_at m)) rows))
      \<and> sorted (map msg_created_at rows) \<and> mset rows = mset (messages_of sid (store w))"
    by blast
next
  assume "\<not> storage_fails env History_route_read \<and> messages_of sid (store w) = []"
  then show "fst (GET_history env (Some sid) w) = Response 200 (Messages_body [])"
    by (simp add: GET_history_simps(1)[OF assms])
next
  assume "storage_fails env History_route_read"
  then show "fst (GET_history env (Some sid) w) =
      Response 500 (Error_body ''Failed to retrieve message history.'')"
    by (simp add: GET_history_simps(1)[OF assms])
next
  show "store (snd (GET_history env (Some sid) w)) = store w"
    by simp
next
  fix req d resp w'
  assume run: "POST env req (start d) = (resp, w')"
    and failed: "Failed \<in> set (storage_results Read_history (trace w'))"
  from run show "resp = Response 500 (Error_body ''Internal Server Error'')"
  proof (cases rule: POST_cases)
    case (turn b uid msg)
    from turn(5) show ?thesis
      by (cases rule: chat_turn_cases) (use failed in \<open>simp_all split: if_splits\<close>)
  qed (use failed in simp_all)
next
  fix req d resp w' h
  assume run: "POST env req (start d) = (resp, w')"
    and rows: "Message_rows h \<in> set (storage_results Read_history (trace w'))"
  have *: "sorted (map msg_created_at h)
      \<and> (\<exists>cid b msg. req = Some b \<and> field ''message'' b = JStr msg
            \<and> mset h =
                add_mset \<lparr>msg_conversation_id = cid, msg_sender = Sender_user,
                           msg_content = msg, msg_created_at = now env Save_user_message\<rparr>
                  (mset (messages_of cid d)))"
    using run
  proof (cases rule: POST_cases)
    case (turn b uid msg)
    from turn(4) have msg: "field ''message'' b = JStr msg"
      by (simp add: required_string_Some)
    have stored: "mset (messages_of cid
          (store (snd (insert_message env Save_user_message cid Sender_user msg
             (snd (resolve_conversation env uid (field ''sessionId'' b) (start d))))))) =
        add_mset \<lparr>msg_conversation_id = cid, msg_sender = Sender_user,
                   msg_content = msg, msg_created_at = now env Save_user_message\<rparr>
          (mset (messages_of cid d))"
      if "\<not> storage_fails env Save_user_message" for cid
      using that by (simp add: messages_of_def)
    from turn(5) show ?thesis
    proof (cases rule: chat_turn_cases)
      case (key_unset cid w1 w2 w4 w5 data)
      with turn(2) show ?thesis by simp
    next
      case (replied cid w1 w2 w4 w5 w6 w7 data history mems aiResponse)
      have "storage_results Read_history (trace w') = [Message_rows data]"
        using replied by (simp split: if_splits)
      with rows have h: "h = data" by simp
      have "mset data =
          add_mset \<lparr>msg_conversation_id = cid, msg_sender = Sender_user,
                     msg_content = msg, msg_created_at = now env Save_user_message\<rparr>
            (mset (messages_of cid d))"
        using stored[OF replied(3), of cid] replied(2,4,6) by simp
      moreover have "sorted (map msg_created_at data)"
        unfolding replied(6) by (rule sorted_sort_key)
      ultimately show ?thesis
        using h turn(1) msg by blast
    qed (use rows in \<open>simp_all split: if_splits\<close>)
  qed (use rows in simp_all)
  from * show "sorted (map msg_created_at h)" by simp
  from * show "\<exists>cid b msg. req = Some b \<and> field ''message'' b = JStr msg
            \<and> mset h =
                add_mset \<lparr>msg_conversation_id = cid, msg_sender = Sender_user,
                           msg_content = msg, msg_created_at = now env Save_user_message\<rparr>
                  (mset (messages_of cid d))" by simp
qed

theorem history_read_witness:
  "\<not> storage_fails env_ok History_route_read
   \<and> fst (GET_history env_ok (Some ''c2'') (start db_sample)) =
       Response 200
         (Messages_body
            [(Sender_user, ''Do you ship to Canada?'', 3),
             (Sender_ai, ''We ship within the USA only.'', 4)])
   \<and> messages_of ''c1'' db_sample = []
   \<and> fst (GET_history env_ok (Some ''c1'') (start db_sample)) = Response 200 (Messages_body [])
   \<and> storage_fails env_history_down History_route_read
   \<and> fst (GET_history env_history_down (Some ''c2'') (start db_sample)) =
       Response 500 (Error_body ''Failed to retrieve message history.'')
   \<and> Failed \<in> set (storage_results Read_history
                     (trace (snd (POST env_history_down (Some req_on_c1) (start db_sample)))))
   \<and> fst (POST env_history_down (Some req_on_c1) (start db_sample)) =
       Response 500 (Error_body ''Internal Server Error'')"
proof -
  have conf: "\<not> unset (NEXT_PUBLIC_SUPABASE_URL env_ok)"
    "\<not> unset (NEXT_PUBLIC_SUPABASE_PUBLISHABLE_KEY env_ok)"
    and conf': "\<not> unset (NEXT_PUBLIC_SUPABASE_URL env_history_down)"
    "\<not> unset (NEXT_PUBLIC_SUPABASE_PUBLISHABLE_KEY env_history_down)"
    by (simp_all add: env_ok_def env_history_down_def unset_def)
  have ok: "\<not> storage_fails env_ok History_route_read"
    and down: "storage_fails env_history_down History_route_read"
    by (simp_all add: env_ok_def env_history_down_def)
  have c2: "fst (GET_history env_ok (Some ''c2'') (start db_sample)) =
       Response 200
         (Messages_body
            [(Sender_user, ''Do you ship to Canada?'', 3),
             (Sender_ai, ''We ship within the USA only.'', 4)])"
    by (simp add: GET_history_def select_messages_def run_defs sample_defs)
  have empty: "messages_of ''c1'' db_sample = []"
    by (simp add: messages_of_def db_sample_def)
  have c1: "fst (GET_history env_ok (Some ''c1'') (start db_sample)) = Response 200 (Messages_body [])"
    using history_read [OF conf, of "''c1''" "start db_sample"] ok empty by simp
  have c2': "fst (GET_history env_history_down (Some ''c2'') (start db_sample)) =
       Response 500 (Error_body ''Failed to retrieve message history.'')"
    using history_read [OF conf', of "''c2''" "start db_sample"] down by simp
  let ?run = "POST env_history_down (Some req_on_c1) (start db_sample)"
  have run: "?run = (fst ?run, snd ?run)"
    by simp
  have failed: "Failed \<in> set (storage_results Read_history (trace (snd ?run)))"
    by (simp add: run_defs sample_defs)
  have post: "fst ?run = Response 500 (Error_body ''Internal Server Error'')"
    using history_read [OF conf', of "''c2''" "start db_sample"] run failed by blast
  from ok c2 empty c1 down c2' failed post show ?thesis by (intro conjI)
qed

text \<open>No request removes or rewrites a stored message or memory.\<close>

lemma POST_grows:
  "prefix (messages_table d) (messages_table (store (snd (POST env req (start d)))))"
  "prefix (memories_table d) (memories_table (store (snd (POST env req (start d)))))"
proof -
  obtain resp w' where run: "POST env req (start d) = (resp, w')"
    by (cases "POST env req (start d)")
  from run have "prefix (messages_table d) (messages_table (store w'))
      \<and> prefix (memories_table d) (memories_table (store w'))"
  proof (cases rule: POST_cases)
    case (turn b uid msg)
    from turn(5) show ?thesis
    proof (cases rule: chat_turn_cases)
      case (replied cid w1 w2 w4 w5 w6 w7 data history mems aiResponse)
      have "memories_table (store w7) = memories_table d"
        using replied by (simp split: if_splits)
      with summarize_grows[of w7 env uid msg aiResponse] replied(16)
      have "prefix (memories_table d) (memories_table (store w'))"
        by simp
      moreover have "prefix (messages_table d) (messages_table (store w'))"
        using replied by (simp split: if_splits)
      ultimately show ?thesis by simp
    qed (simp_all split: if_splits)
  qed simp_all
  with run show "prefix (messages_table d) (messages_table (store (snd (POST env req (start d)))))"
    "prefix (memories_table d) (memories_table (store (snd (POST env req (start d)))))"
    by simp_all
qed

lemma run_grows:
  "prefix (messages_table d) (messages_table (run rs d))"
  "prefix (memories_table d) (memories_table (run rs d))"
proof (induction rs arbitrary: d)
  case Nil
  case 1 show ?case by simp
  case 2 show ?case by simp
next
  case (Cons r rs)
  obtain env req where r: "r = (env, req)" by (cases r)
  case 1 show ?case
    unfolding r using POST_grows(1)[of d env req] Cons.IH(1) prefix_order.order_trans
    by fastforce
  case 2 show ?case
    unfolding r using POST_grows(2)[of d env req] Cons.IH(2) prefix_order.order_trans
    by fastforce
qed

lemma messages_of_grows:
  "prefix (messages_table d) (messages_table d') \<Longrightarrow> messages_of cid d \<noteq> [] \<Longrightarrow>
     messages_of cid d' \<noteq> []"
  by (auto simp: messages_of_def prefix_def)

text \<open>A turn on a conversation that already has a message asks for no title.\<close>

lemma no_title_on_used_conversation:
  assumes "chat_turn env uid msg (JStr cid) (start d) = (resp, w')"
      and "cid \<noteq> []" "messages_of cid d \<noteq> []"
  shows "completions Generate_title (trace w') = []"
proof -
  have long: "length (sort_key msg_created_at (messages_of cid
      (store (snd (insert_message env Save_user_message cid Sender_user msg w1))))) \<noteq> 1"
    if "messages_table (store w1) = messages_table d" "\<not> storage_fails env Save_user_message"
    for w1
    using that assms(3) by (cases "messages_of cid d") (simp_all add: messages_of_def)
  have same: "cid' = cid"
    if "fst (resolve_conversation env uid (JStr cid) (start d)) = Inr (JStr cid')" for cid'
    using resolve_Inr[OF that] assms(2) by simp
  from assms(1) show ?thesis
  proof (cases rule: chat_turn_cases)
    case (key_unset cid' w1 w2 w4 w5 data)
    with long[of w1] same[of cid'] show ?thesis by simp
  next
    case (replied cid' w1 w2 w4 w5 w6 w7 data history mems aiResponse)
    with long[of w1] same[of cid'] show ?thesis by simp
  qed simp_all
qed

section \<open>When a title is generated\<close>

text \<open>
  C4, as the specification states it, fails on the code: the first successful turn on a
  conversation need not ask for a title. Here the conversation c1 has no message; a first
  request on it stores the user's message, fails to read the history and is answered
  500; the same request, sent again, is the first turn that succeeds on c1, and it asks
  for no title, because the history it reads holds two messages.
\<close>

theorem title_trigger_counterexample:
  "messages_of ''c1'' db_sample = []
   \<and> fst (POST env_history_down (Some req_on_c1) (start db_sample)) =
       Response 500 (Error_body ''Internal Server Error'')
   \<and> completions Generate_title
       (trace (snd (POST env_history_down (Some req_on_c1) (start db_sample)))) = []
   \<and> map msg_sender (messages_of ''c1'' (run [(env_history_down, Some req_on_c1)] db_sample)) =
       [Sender_user]
   \<and> fst (POST env_ok (Some req_on_c1)
            (start (run [(env_history_down, Some req_on_c1)] db_sample))) =
       Response 200 (Reply_body ''You can return any item within 30 days.'' ''c1'')
   \<and> completions Generate_title
       (trace (snd (POST env_ok (Some req_on_c1)
                     (start (run [(env_history_down, Some req_on_c1)] db_sample))))) = []"
proof -
  have a: "messages_of ''c1'' db_sample = []"
    by (simp add: messages_of_def db_sample_def)
  have b: "fst (POST env_history_down (Some req_on_c1) (start db_sample)) =
       Response 500 (Error_body ''Internal Server Error'')"
    by (simp add: run_defs sample_defs)
  have c: "completions Generate_title
       (trace (snd (POST env_history_down (Some req_on_c1) (start db_sample)))) = []"
    by (simp add: run_defs sample_defs)
  have after: "run [(env_history_down, Some req_on_c1)] db_sample =
      db_sample\<lparr>messages_table := messages_table db_sample @
        [\<lparr>msg_conversation_id = ''c1'', msg_sender = Sender_user,
          msg_content = ''What is your return policy?'', msg_created_at = 20\<rparr>]\<rparr>"
    by (simp add: run_defs sample_defs)
  have d: "map msg_sender (messages_of ''c1'' (run [(env_history_down, Some req_on_c1)] db_sample)) =
       [Sender_user]"
    unfolding after by (simp add: messages_of_def db_sample_def)
  have e: "fst (POST env_ok (Some req_on_c1)
            (start (run [(env_history_down, Some req_on_c1)] db_sample))) =
       Response 200 (Reply_body ''You can return any item within 30 days.'' ''c1'')"
    unfolding after by (simp add: run_defs sample_defs)
  have f: "completions Generate_title
       (trace (snd (POST env_ok (Some req_on_c1)
                     (start (run [(env_history_down, Some req_on_c1)] db_sample))))) = []"
    unfolding after by (simp add: run_defs sample_defs)
  from a b c d e f show ?thesis by (intro conjI)
qed

text \<open>
  C4, amended. A request to the chat route asks for a title if and only if the history it
  read after storing the incoming message holds exactly one message and that message is
  the user's; it never asks for more than one. Hence a turn that succeeds asks for
  exactly one title when its conversation had no stored message before the turn, and for
  none when it had one; and after a turn that succeeded on a conversation, whatever
  requests are served in between, no later request on that conversation asks for a
  title.
\<close>

theorem title_generation_trigger:
  assumes "POST env req (start d) = (resp, w')"
  shows "length (completions Generate_title (trace w')) =
           (if \<exists>h. Message_rows h \<in> set (storage_results Read_history (trace w'))
                  \<and> length h = 1 \<and> msg_sender (h ! 0) = Sender_user
            then 1 else 0)
       \<and> (\<forall>reply cid. resp = Response 200 (Reply_body reply cid) \<longrightarrow>
             length (completions Generate_title (trace w')) =
               (if messages_of cid d = [] then 1 else 0))
       \<and> (\<forall>reply cid rs env' b'.
             resp = Response 200 (Reply_body reply cid) \<and> cid \<noteq> []
             \<and> field ''sessionId'' b' = JStr cid \<longrightarrow>
               completions Generate_title
                 (trace (snd (POST env' (Some b') (start (run rs (store w')))))) = [])"
proof (intro conjI allI impI)
  show "length (completions Generate_title (trace w')) =
      (if \<exists>h. Message_rows h \<in> set (storage_results Read_history (trace w'))
             \<and> length h = 1 \<and> msg_sender (h ! 0) = Sender_user
       then 1 else 0)"
    using assms
  proof (cases rule: POST_cases)
    case (turn b uid msg)
    from turn(5) show ?thesis
    proof (cases rule: chat_turn_cases)
      case (key_unset cid w1 w2 w4 w5 data)
      with turn(2) show ?thesis by simp
    next
      case (replied cid w1 w2 w4 w5 w6 w7 data history mems aiResponse)
      have "storage_results Read_history (trace w') = [Message_rows data]"
        using replied by (simp split: if_splits)
      moreover have "completions Generate_title (trace w') =
          (if length data = 1 \<and> msg_sender (data ! 0) = Sender_user
           then [(title_request msg, groq env (title_request msg))] else [])"
        using replied by (simp add: auto_title_effect)
      ultimately show ?thesis by simp
    qed (simp_all split: if_splits)
  qed simp_all
next
  fix reply cid
  assume resp: "resp = Response 200 (Reply_body reply cid)"
  from assms show "length (completions Generate_title (trace w')) =
      (if messages_of cid d = [] then 1 else 0)"
  proof (cases rule: POST_cases)
    case (named b uid)
    with resp show ?thesis by (simp add: create_named_result split: if_splits)
  next
    case (turn b uid msg)
    from turn(5) show ?thesis
    proof (cases rule: chat_turn_cases)
      case (unresolved r)
      with resp resolve_Inl[OF unresolved(1)] show ?thesis by (simp split: if_splits)
    next
      case (replied cid' w1 w2 w4 w5 w6 w7 data history mems aiResponse)
      with resp have cid: "cid' = cid" by simp
      show ?thesis
      proof (cases "messages_of cid d = []")
        case True
        have "data = [\<lparr>msg_conversation_id = cid, msg_sender = Sender_user, msg_content = msg,
            msg_created_at = now env Save_user_message\<rparr>]"
          using replied True unfolding cid by (simp add: messages_of_def)
        then show ?thesis
          using replied True by (simp add: auto_title_effect)
      next
        case False
        have "length data = Suc (length (messages_of cid d))"
          using replied(2,3,4,6) unfolding cid by (simp add: messages_of_def)
        with False have "\<not> (length data = 1 \<and> msg_sender (data ! 0) = Sender_user)"
          by simp
        with replied(8) have "w5 = w4" by auto
        with replied(4,7,13,14,16) have "completions Generate_title (trace w') =
            completions Generate_title (trace w1)"
          by simp
        with replied(2) False show ?thesis by simp
      qed
    qed (use resp in simp_all)
  qed (use resp in simp_all)
next
  fix reply cid rs env' b'
  assume "resp = Response 200 (Reply_body reply cid) \<and> cid \<noteq> []
      \<and> field ''sessionId'' b' = JStr cid"
  then have resp: "resp = Response 200 (Reply_body reply cid)"
    and cid: "cid \<noteq> []" and sid: "field ''sessionId'' b' = JStr cid"
    by simp_all
  have used: "messages_of cid (store w') \<noteq> []"
    using assms
  proof (cases rule: POST_cases)
    case (named b uid)
    with resp show ?thesis by (simp add: create_named_result split: if_splits)
  next
    case (turn b uid msg)
    from turn(5) show ?thesis
    proof (cases rule: chat_turn_cases)
      case (unresolved r)
      with resp resolve_Inl[OF unresolved(1)] show ?thesis by (simp split: if_splits)
    next
      case (replied cid' w1 w2 w4 w5 w6 w7 data history mems aiResponse)
      with resp have "cid' = cid" by simp
      with replied show ?thesis
        by (simp add: messages_of_def split: if_splits)
    qed (use resp in simp_all)
  qed (use resp in simp_all)
  then have later: "messages_of cid (run rs (store w')) \<noteq> []"
    using run_grows(1)[of "store w'" rs] messages_of_grows by blast
  obtain resp2 w2 where run2: "POST env' (Some b') (start (run rs (store w'))) = (resp2, w2)"
    by (cases "POST env' (Some b') (start (run rs (store w')))")
  from run2 have "completions Generate_title (trace w2) = []"
  proof (cases rule: POST_cases)
    case (turn b uid msg)
    with sid have "chat_turn env' uid msg (JStr cid) (start (run rs (store w'))) = (resp2, w2)"
      by simp
    from no_title_on_used_conversation[OF this cid later] show ?thesis .
  qed simp_all
  with run2 show "completions Generate_title
      (trace (snd (POST env' (Some b') (start (run rs (store w')))))) = []"
    by simp
qed

theorem title_generation_trigger_witness:
  "fst (POST env_ok (Some req_on_c1) (start db_sample)) =
     Response 200 (Reply_body ''You can return any item within 30 days.'' ''c1'')
   \<and> messages_of ''c1'' db_sample = []
   \<and> field ''sessionId'' req_on_c1 = JStr ''c1''
   \<and> length (completions Generate_title
               (trace (snd (POST env_ok (Some req_on_c1) (start db_sample))))) = 1
   \<and> completions Generate_title
         (trace (snd (POST env_ok (Some req_on_c1)
            (start (store (snd (POST env_ok (Some req_on_c1) (start db_sample)))))))) = []"
proof -
  let ?run = "POST env_ok (Some req_on_c1) (start db_sample)"
  have run: "?run = (fst ?run, snd ?run)"
    by simp
  have resp: "fst ?run = Response 200 (Reply_body ''You can return any item within 30 days.'' ''c1'')"
    by (simp add: run_defs sample_defs)
  have fresh: "messages_of ''c1'' db_sample = []"
    by (simp add: messages_of_def db_sample_def)
  have sid: "field ''sessionId'' req_on_c1 = JStr ''c1''"
    by (simp add: req_on_c1_def)
  note t = title_generation_trigger [OF run]
  from t resp
  have "length (completions Generate_title (trace (snd ?run))) =
      (if messages_of ''c1'' db_sample = [] then 1 else 0)"
    by blast
  with fresh have one: "length (completions Generate_title (trace (snd ?run))) = 1"
    by simp
  from t resp sid
  have "completions Generate_title
      (trace (snd (POST env_ok (Some req_on_c1) (start (run [] (store (snd ?run))))))) = []"
    by blast
  then have none: "completions Generate_title
      (trace (snd (POST env_ok (Some req_on_c1) (start (store (snd ?run)))))) = []"
    by (simp only: run.simps)
  from resp fresh sid one none show ?thesis by (intro conjI)
qed

text \<open>Sorting keeps the rows that were there, in the order they had.\<close>

lemma insort_key_subseq:
  "subseq us vs \<Longrightarrow> sorted (map f vs) \<Longrightarrow>
     subseq (insort_key f x us) (insort_key f x vs)"
proof (induction vs arbitrary: us)
  case Nil
  then show ?case by (cases us) simp_all
next
  case (Cons b vs)
  from Cons.prems(2) have sorted: "sorted (map f vs)" and least: "\<forall>y \<in> set vs. f b \<le> f y"
    by simp_all
  show ?case
  proof (cases "f x \<le> f b")
    case True
    have "f x \<le> f a" if "a \<in> set us" for a
    proof -
      from Cons.prems(1) that obtain y where "y \<in> set (b # vs)" "a = y"
        by (rule list_emb_set)
      with least True show ?thesis by auto
    qed
    then have "insort_key f x us = x # us"
      by (cases us) simp_all
    with True Cons.prems(1) show ?thesis by simp
  next
    case False
    show ?thesis
    proof (cases us)
      case Nil
      then show ?thesis
        by (simp add: subseq_singleton_left set_insort_key)
    next
      case (Cons a us')
      show ?thesis
      proof (cases "a = b")
        case True
        with Cons Cons.prems(1) have "subseq us' vs" by simp
        from Cons.IH[OF this sorted] True Cons False show ?thesis by simp
      next
        case neq: False
        with Cons Cons.prems(1) have "subseq us vs" by simp
        from Cons.IH[OF this sorted] False show ?thesis
          by (simp add: list_emb_Cons)
      qed
    qed
  qed
qed

lemma subseq_insort_into:
  "sorted (map f zs) \<Longrightarrow> subseq (sort_key f xs) (foldr (insort_key f) xs zs)"
proof (induction xs)
  case Nil
  then show ?case by simp
next
  case (Cons x xs)
  have "sorted (map f (foldr (insort_key f) xs zs))"
    using Cons.prems by (induction xs) (simp_all add: sorted_insort_key)
  with Cons show ?case
    by (simp add: insort_key_subseq)
qed

lemma subseq_sort_key_append: "subseq (sort_key f xs) (sort_key f (xs @ ys))"
proof -
  have "sort_key f (xs @ ys) = foldr (insort_key f) xs (sort_key f ys)"
    by (simp add: sort_key_def)
  then show ?thesis
    by (simp add: subseq_insort_into)
qed

section \<open>Memories are only added\<close>

text \<open>
  C9. No request updates or deletes a memory row: a request to the chat route leaves the
  memory table with the rows it had, in place, and possibly new ones after them
  (duplicates included); the two reading routes change nothing. So the same holds after
  any sequence of requests, and for every user a read that the store answers returns
  the contents of rows that are sorted by creation time and are, as a multiset, exactly
  the user's rows at that moment; the result of any earlier answered read is a
  subsequence of it: the facts returned never shrink.
\<close>

theorem memories_only_grow:
  "prefix (memories_table d) (memories_table (store (snd (POST env req (start d)))))
   \<and> store (snd (GET_history env sessionId (start d))) = d
   \<and> store (snd (GET_sessions env userId (start d))) = d
   \<and> prefix (memories_table d) (memories_table (run rs d))
   \<and> (\<not> storage_fails env2 Read_memories \<longrightarrow>
        (\<exists>rows::memory list. fst (getMemories env2 uid (start (run rs d))) = map mem_content rows
              \<and> sorted (map mem_created_at rows)
              \<and> mset rows = mset (memories_of uid (run rs d)))
      \<and> (\<not> storage_fails env1 Read_memories \<longrightarrow>
            subseq (fst (getMemories env1 uid (start d)))
              (fst (getMemories env2 uid (start (run rs d))))))"
proof (intro conjI impI)
  show "prefix (memories_table d) (memories_table (store (snd (POST env req (start d)))))"
    by (rule POST_grows(2))
  show "store (snd (GET_history env sessionId (start d))) = d"
    "store (snd (GET_sessions env userId (start d))) = d"
    by simp_all
  show grows: "prefix (memories_table d) (memories_table (run rs d))"
    by (rule run_grows(2))
  assume ok2: "\<not> storage_fails env2 Read_memories"
  then have read2: "fst (getMemories env2 uid (start (run rs d))) =
      map mem_content (sort_key mem_created_at (memories_of uid (run rs d)))"
    by simp
  have "fst (getMemories env2 uid (start (run rs d))) =
        map mem_content (sort_key mem_created_at (memories_of uid (run rs d)))
      \<and> sorted (map mem_created_at (sort_key mem_created_at (memories_of uid (run rs d))))
      \<and> mset (sort_key mem_created_at (memories_of uid (run rs d))) =
          mset (memories_of uid (run rs d))"
    using read2 by (simp del: getMemories_simps)
  then show "\<exists>rows::memory list. fst (getMemories env2 uid (start (run rs d))) = map mem_content rows
      \<and> sorted (map mem_created_at rows) \<and> mset rows = mset (memories_of uid (run rs d))"
    by (rule exI)
  assume ok1: "\<not> storage_fails env1 Read_memories"
  from grows obtain new where "memories_table (run rs d) = memories_table d @ new"
    by (auto simp: prefix_def)
  then have "memories_of uid (run rs d) =
      memories_of uid d @ filter (\<lambda>m. mem_user_id m = uid) new"
    by (simp add: memories_of_def)
  then have "subseq (sort_key mem_created_at (memories_of uid d))
      (sort_key mem_created_at (memories_of uid (run rs d)))"
    by (simp add: subseq_sort_key_append)
  then have "subseq (map mem_content (sort_key mem_created_at (memories_of uid d)))
      (map mem_content (sort_key mem_created_at (memories_of uid (run rs d))))"
    by (rule subseq_map)
  with ok1 read2 show "subseq (fst (getMemories env1 uid (start d)))
      (fst (getMemories env2 uid (start (run rs d))))"
    by simp
qed

theorem memories_only_grow_witness:
  "\<not> storage_fails env_ok Read_memories
   \<and> fst (getMemories env_ok ''alice'' (start db_sample)) =
       [''User bought a cat keyboard'', ''User lives in Mumbai'', ''User lives in Mumbai'']
   \<and> fst (getMemories env_ok ''alice'' (start (run [(env_ok, Some req_on_c1)] db_sample))) =
       [''User bought a cat keyboard'', ''User lives in Mumbai'', ''User lives in Mumbai'',
        ''User lives in Mumbai'']
   \<and> subseq (fst (getMemories env_ok ''alice'' (start db_sample)))
        (fst (getMemories env_ok ''alice'' (start (run [(env_ok, Some req_on_c1)] db_sample))))
   \<and> prefix (memories_table db_sample)
        (memories_table (run [(env_ok, Some req_on_c1)] db_sample))"
proof -
  have ok: "\<not> storage_fails env_ok Read_memories"
    by (simp add: env_ok_def)
  have before: "fst (getMemories env_ok ''alice'' (start db_sample)) =
       [''User bought a cat keyboard'', ''User lives in Mumbai'', ''User lives in Mumbai'']"
    by (simp add: env_ok_def db_sample_def memories_of_def)
  have after: "memories_table (run [(env_ok, Some req_on_c1)] db_sample) =
      memories_table db_sample @
        [\<lparr>mem_user_id = ''alice'', mem_content = ''User lives in Mumbai'', mem_created_at = 22\<rparr>]"
    by (simp add: run_defs sample_defs)
  have "memories_of ''alice'' (run [(env_ok, Some req_on_c1)] db_sample) =
      [\<lparr>mem_user_id = ''alice'', mem_content = ''User lives in Mumbai'', mem_created_at = 5\<rparr>,
       \<lparr>mem_user_id = ''alice'', mem_content = ''User bought a cat keyboard'',
        mem_created_at = 2\<rparr>,
       \<lparr>mem_user_id = ''alice'', mem_content = ''User lives in Mumbai'', mem_created_at = 7\<rparr>,
       \<lparr>mem_user_id = ''alice'', mem_content = ''User lives in Mumbai'', mem_created_at = 22\<rparr>]"
    unfolding memories_of_def after by (simp add: db_sample_def)
  with ok have read:
    "fst (getMemories env_ok ''alice'' (start (run [(env_ok, Some req_on_c1)] db_sample))) =
       [''User bought a cat keyboard'', ''User lives in Mumbai'', ''User lives in Mumbai'',
        ''User lives in Mumbai'']"
    by (simp del: run.simps)
  note t = memories_only_grow
    [where d = db_sample and rs = "[(env_ok, Some req_on_c1)]" and ?env1.0 = env_ok
       and uid = "''alice''" and ?env2.0 = env_ok]
  from t ok have sub: "subseq (fst (getMemories env_ok ''alice'' (start db_sample)))
        (fst (getMemories env_ok ''alice'' (start (run [(env_ok, Some req_on_c1)] db_sample))))"
    by blast
  from t have pre: "prefix (memories_table db_sample)
        (memories_table (run [(env_ok, Some req_on_c1)] db_sample))"
    by blast
  from ok before read sub pre show ?thesis by (intro conjI)
qed

lemma resolve_conversations:
  assumes "fst (resolve_conversation env uid sid w) = Inr v"
  shows "\<exists>new. conversations_table (store (snd (resolve_conversation env uid sid w))) =
           conversations_table (store w) @ new"
  by (auto simp: resolve_conversation_def insert_conversation_def select_own_conversation_def
        text_value_def Let_def split: option.splits list.splits)

section \<open>The title of a conversation\<close>

text \<open>
  C3, as the specification states it, fails on the code: the title operation never
  reports a failure, it returns the fallback, and the handler stores whatever it returns.
  Here the completion service raises; the conversation, created with the name Support,
  ends up named New Conversation.
\<close>

theorem title_fallback_counterexample:
  "map snd (completions Generate_title
      (trace (snd (POST env_llm_raises (Some req_on_c1) (start db_sample))))) = [Raises]
   \<and> map conv_name (conversations_table db_sample) = [Some ''Support'', Some ''New Chat'']
   \<and> map conv_name
        (conversations_table (store (snd (POST env_llm_raises (Some req_on_c1) (start db_sample))))) =
       [Some ''New Conversation'', Some ''New Chat'']"
proof -
  have a: "map snd (completions Generate_title
      (trace (snd (POST env_llm_raises (Some req_on_c1) (start db_sample))))) = [Raises]"
    by (simp add: run_defs sample_defs)
  have b: "map conv_name (conversations_table db_sample) = [Some ''Support'', Some ''New Chat'']"
    by (simp add: db_sample_def)
  have c: "map conv_name
        (conversations_table (store (snd (POST env_llm_raises (Some req_on_c1) (start db_sample))))) =
       [Some ''New Conversation'', Some ''New Chat'']"
    by (simp add: run_defs sample_defs)
  from a b c show ?thesis by (intro conjI)
qed

text \<open>
  C3, amended. When its completion call fails (it raises, or returns no content or only
  white space) the title operation yields the fixed fallback title New Conversation.
  Whenever a turn asks for a title, and the store accepts the update, the display name of
  the turn's conversation is set to what the title operation returned: the trimmed
  completion when titling succeeds, the fallback New Conversation when it fails. A
  request that asks for no title leaves every stored display name as it was.
\<close>

theorem title_update:
  assumes "POST env req (start d) = (resp, w')"
  shows "(\<forall>m w. groq env (title_request m) = Raises \<or> groq env (title_request m) = Returned None
              \<or> (\<exists>c. groq env (title_request m) = Returned (Some c) \<and> trim c = []) \<longrightarrow>
            fst (generateChatTitle env m w) = ''New Conversation'')
       \<and> (completions Generate_title (trace w') = [] \<longrightarrow>
            (\<exists>new. conversations_table (store w') = conversations_table d @ new))
       \<and> (\<forall>r out. completions Generate_title (trace w') = [(r, out)] \<longrightarrow>
            (\<exists>reply cid b msg new title.
                req = Some b \<and> field ''message'' b = JStr msg
              \<and> r = title_request msg \<and> out = groq env r
              \<and> resp = Response 200 (Reply_body reply cid)
              \<and> title = (case out of
                           Returned (Some c) \<Rightarrow> if trim c = [] then ''New Conversation'' else trim c
                         | _ \<Rightarrow> ''New Conversation'')
              \<and> conversations_table (store w') =
                  (if storage_fails env Update_title then conversations_table d @ new
                   else map (\<lambda>c. if conv_id c = cid then c\<lparr>conv_name := Some title\<rparr> else c)
                          (conversations_table d @ new))))"
proof (intro conjI allI impI)
  fix m w
  assume "groq env (title_request m) = Raises \<or> groq env (title_request m) = Returned None
      \<or> (\<exists>c. groq env (title_request m) = Returned (Some c) \<and> trim c = [])"
  then show "fst (generateChatTitle env m w) = ''New Conversation''"
    by (auto simp: generateChatTitle_simps(2))
next
  assume none: "completions Generate_title (trace w') = []"
  from assms show "\<exists>new. conversations_table (store w') = conversations_table d @ new"
  proof (cases rule: POST_cases)
    case (named b uid)
    then show ?thesis by (simp add: create_named_result)
  next
    case (turn b uid msg)
    from turn(5) show ?thesis
    proof (cases rule: chat_turn_cases)
      case (unresolved r)
      with resolve_Inl[OF unresolved(1)] show ?thesis by simp
    next
      case (user_save_failed cid w1)
      with resolve_conversations[OF user_save_failed(1)] show ?thesis by simp
    next
      case (history_failed cid w1 w2)
      with resolve_conversations[OF history_failed(1)] show ?thesis by simp
    next
      case (key_unset cid w1 w2 w4 w5 data)
      with turn(2) show ?thesis by simp
    next
      case (replied cid w1 w2 w4 w5 w6 w7 data history mems aiResponse)
      have tr: "completions Generate_title (trace w') = completions Generate_title (trace w5)"
        using replied(13,14,16) by simp
      have "\<not> (length data = 1 \<and> msg_sender (data ! 0) = Sender_user)"
      proof
        assume "length data = 1 \<and> msg_sender (data ! 0) = Sender_user"
        with replied(8) have "w5 = auto_title env cid msg w4" by simp
        with tr none show False by (simp add: auto_title_effect(1))
      qed
      with replied(8) have "w5 = w4" by auto
      with replied(4,7,13,14,16) have "conversations_table (store w') = conversations_table (store w1)"
        by simp
      with resolve_conversations[OF replied(1)] replied(2) show ?thesis by simp
    next
      case (rejected_id v)
      with resolve_conversations[OF rejected_id(1)] show ?thesis by simp
    qed
  qed simp_all
next
  fix r out
  assume one: "completions Generate_title (trace w') = [(r, out)]"
  from assms show "\<exists>reply cid b msg new title.
        req = Some b \<and> field ''message'' b = JStr msg
      \<and> r = title_request msg \<and> out = groq env r
      \<and> resp = Response 200 (Reply_body reply cid)
      \<and> title = (case out of
                   Returned (Some c) \<Rightarrow> if trim c = [] then ''New Conversation'' else trim c
                 | _ \<Rightarrow> ''New Conversation'')
      \<and> conversations_table (store w') =
          (if storage_fails env Update_title then conversations_table d @ new
           else map (\<lambda>c. if conv_id c = cid then c\<lparr>conv_name := Some title\<rparr> else c)
                  (conversations_table d @ new))"
  proof (cases rule: POST_cases)
    case (turn b uid msg)
    from turn(4) have msg: "field ''message'' b = JStr msg"
      by (simp add: required_string_Some)
    from turn(5) show ?thesis
    proof (cases rule: chat_turn_cases)
      case (key_unset cid w1 w2 w4 w5 data)
      with turn(2) show ?thesis by simp
    next
      case (replied cid w1 w2 w4 w5 w6 w7 data history mems aiResponse)
      have tr: "completions Generate_title (trace w') = completions Generate_title (trace w5)"
        using replied(13,14,16) by simp
      have tr4: "completions Generate_title (trace w4) = []"
        using replied(2,4,7) by simp
      have titled: "length data = 1 \<and> msg_sender (data ! 0) = Sender_user"
      proof (rule ccontr)
        assume "\<not> (length data = 1 \<and> msg_sender (data ! 0) = Sender_user)"
        with replied(8) have "w5 = w4" by auto
        with tr tr4 one show False by simp
      qed
      with replied(8) have w5: "w5 = auto_title env cid msg w4"
        by simp
      have "completions Generate_title (trace w') =
          [(title_request msg, groq env (title_request msg))]"
        unfolding tr w5 by (simp add: auto_title_effect(1) tr4)
      with one have r: "r = title_request msg" "out = groq env r"
        by auto
      from resolve_conversations[OF replied(1)] replied(2) obtain new where
        new: "conversations_table (store w1) = conversations_table d @ new"
        by auto
      have "conversations_table (store w4) = conversations_table d @ new"
        using replied(4,7) new by simp
      moreover have "conversations_table (store w') = conversations_table (store w5)"
        using replied(13,14,16) by simp
      ultimately have "conversations_table (store w') =
          (if storage_fails env Update_title then conversations_table d @ new
           else map (\<lambda>c. if conv_id c = cid
                  then c\<lparr>conv_name := Some (fst (generateChatTitle env msg w4))\<rparr> else c)
                  (conversations_table d @ new))"
        unfolding w5 by (simp add: auto_title_effect(3))
      then have "conversations_table (store w') =
          (if storage_fails env Update_title then conversations_table d @ new
           else map (\<lambda>c. if conv_id c = cid
                  then c\<lparr>conv_name := Some
                    (case out of
                       Returned (Some c) \<Rightarrow> if trim c = [] then ''New Conversation'' else trim c
                     | _ \<Rightarrow> ''New Conversation'')\<rparr> else c)
                  (conversations_table d @ new))"
        unfolding generateChatTitle_simps(2) r by simp
      with turn(1) msg r replied(15) show ?thesis
        by blast
    qed (use one in \<open>simp_all split: if_splits\<close>)
  qed (use one in simp_all)
qed

theorem title_update_witness:
  "groq env_llm_raises (title_request ''What is your return policy?'') = Raises
   \<and> fst (generateChatTitle env_llm_raises ''What is your return policy?'' (start db_sample)) =
       ''New Conversation''
   \<and> completions Generate_title (trace (snd (POST env_ok (Some req_named) (start db_sample)))) = []
   \<and> (\<exists>new. conversations_table (store (snd (POST env_ok (Some req_named) (start db_sample)))) =
          conversations_table db_sample @ new)
   \<and> map snd (completions Generate_title
        (trace (snd (POST env_ok (Some req_on_c1) (start db_sample))))) =
       [Returned (Some '' Return Policy Question '')]
   \<and> \<not> storage_fails env_ok Update_title
   \<and> (\<exists>cid new. conversations_table (store (snd (POST env_ok (Some req_on_c1) (start db_sample)))) =
          map (\<lambda>c. if conv_id c = cid then c\<lparr>conv_name := Some ''Return Policy Question''\<rparr> else c)
            (conversations_table db_sample @ new))
   \<and> map conv_name
        (conversations_table (store (snd (POST env_ok (Some req_on_c1) (start db_sample))))) =
       [Some ''Return Policy Question'', Some ''New Chat'']"
proof -
  let ?down = "POST env_llm_raises (Some req_on_c1) (start db_sample)"
  let ?named = "POST env_ok (Some req_named) (start db_sample)"
  let ?run = "POST env_ok (Some req_on_c1) (start db_sample)"
  have raises: "groq env_llm_raises (title_request ''What is your return policy?'') = Raises"
    by (simp add: env_llm_raises_def)
  have down: "?down = (fst ?down, snd ?down)" by simp
  from title_update [OF down] raises
  have fallback: "fst (generateChatTitle env_llm_raises ''What is your return policy?''
      (start db_sample)) = ''New Conversation''"
    by blast
  have named: "?named = (fst ?named, snd ?named)" by simp
  have none: "completions Generate_title (trace (snd ?named)) = []"
    by (simp add: run_defs sample_defs)
  from title_update [OF named] none
  have kept: "\<exists>new. conversations_table (store (snd ?named)) = conversations_table db_sample @ new"
    by blast
  have run: "?run = (fst ?run, snd ?run)" by simp
  have one: "completions Generate_title (trace (snd ?run)) =
      [(title_request ''What is your return policy?'', Returned (Some '' Return Policy Question ''))]"
    by (simp add: run_defs sample_defs title_request_def)
  then have outs: "map snd (completions Generate_title (trace (snd ?run))) =
      [Returned (Some '' Return Policy Question '')]"
    by simp
  have stored: "\<not> storage_fails env_ok Update_title"
    by (simp add: env_ok_def)
  have title: "(case Returned (Some '' Return Policy Question '') of
        Returned (Some c) \<Rightarrow> if trim c = [] then ''New Conversation'' else trim c
      | _ \<Rightarrow> ''New Conversation'') = ''Return Policy Question''"
    by (simp add: trim_def is_space_def)
  from title_update [OF run] one obtain cid new title where
    "title = (case Returned (Some '' Return Policy Question '') of
        Returned (Some c) \<Rightarrow> if trim c = [] then ''New Conversation'' else trim c
      | _ \<Rightarrow> ''New Conversation'')"
    "conversations_table (store (snd ?run)) =
      (if storage_fails env_ok Update_title then conversations_table db_sample @ new
       else map (\<lambda>c. if conv_id c = cid then c\<lparr>conv_name := Some title\<rparr> else c)
              (conversations_table db_sample @ new))"
    by blast
  with stored title
  have renamed: "\<exists>cid new. conversations_table (store (snd ?run)) =
      map (\<lambda>c. if conv_id c = cid then c\<lparr>conv_name := Some ''Return Policy Question''\<rparr> else c)
        (conversations_table db_sample @ new)"
    by auto
  have names: "map conv_name (conversations_table (store (snd ?run))) =
      [Some ''Return Policy Question'', Some ''New Chat'']"
    by (simp add: run_defs sample_defs)
  from raises fallback none kept outs stored renamed names show ?thesis
    by (intro conjI)
qed

section \<open>Fact extraction\<close>






end
